theory Spec2Isabelle
  imports Main "HOL-Library.Word"
begin

section \<open>The message-call and contract-creation dispatcher of core/vm/environment.go\<close>

text \<open>
  The embedding follows \<^verbatim>\<open>core/vm/environment.go\<close>: the four entry points
  \<^verbatim>\<open>Call\<close>, \<^verbatim>\<open>CallCode\<close>, \<^verbatim>\<open>DelegateCall\<close> and \<^verbatim>\<open>Create\<close> of \<^verbatim>\<open>EVM\<close>.
  Go's mutable \<^verbatim>\<open>StateDB\<close> is passed explicitly and returned updated; \<^verbatim>\<open>*big.Int\<close> is
  \<open>int\<close>; \<^verbatim>\<open>uint64\<close> is \<open>64 word\<close>; a byte slice is a list of bytes, the \<^verbatim>\<open>nil\<close> slice
  being the empty list (the dispatcher reads a slice only through \<^verbatim>\<open>len\<close>); the Go
  \<^verbatim>\<open>error\<close> interface is \<open>error option\<close>, \<open>None\<close> for \<^verbatim>\<open>nil\<close>.
\<close>

subsection \<open>Basic types\<close>

type_synonym address = "160 word"
type_synonym hash = "256 word"
type_synonym bytes = "8 word list"

text \<open>
  The error values the dispatcher returns. \<open>ErrInsufficientFunds req has\<close> stands for the
  message built by \<^verbatim>\<open>fmt.Errorf\<close> in \<^verbatim>\<open>CallCode\<close> from the requested amount and the
  caller's balance. \<open>ExecutionFault\<close> carries the faults of the interpreter that the
  dispatcher does not name.
\<close>

datatype error =
    ErrDepth
  | ErrInsufficientBalance
  | ErrCodeStoreOutOfGas
  | ErrInsufficientFunds int int
  | ExecutionFault string

subsection \<open>The state view\<close>

text \<open>
  Modelled from the spec: the \<^verbatim>\<open>StateDB\<close> interface and its implementation are not among
  the sources. An account has a balance, a nonce, code and storage; the state view maps
  addresses to accounts and keeps, for every live snapshot, the account table saved when
  the snapshot was taken. \<open>Snapshot\<close> saves the table and returns the snapshot's identifier
  (its position); \<open>RevertToSnapshot\<close> restores the saved table and drops that snapshot and
  all snapshots taken after it. An identifier that names no live snapshot leaves the state
  as it is: the spec gives no behaviour for it.
\<close>

record Account =
  Balance :: int
  Nonce :: "64 word"
  AccountCode :: bytes
  Storage :: "hash \<rightharpoonup> hash"

record StateDB =
  accounts :: "address \<rightharpoonup> Account"
  revisions :: "(address \<rightharpoonup> Account) list"

definition emptyAccount :: Account where
  "emptyAccount = \<lparr>Balance = 0, Nonce = 0, AccountCode = [], Storage = Map.empty\<rparr>"

text \<open>A write to an address that has no account yet starts from the empty account.\<close>

definition getOrNew :: "StateDB \<Rightarrow> address \<Rightarrow> Account" where
  "getOrNew s addr = (case accounts s addr of None \<Rightarrow> emptyAccount | Some a \<Rightarrow> a)"

definition Exist :: "StateDB \<Rightarrow> address \<Rightarrow> bool" where
  "Exist s addr = (accounts s addr \<noteq> None)"

text \<open>An account reference is the account's address: the dispatcher reads only
  \<^verbatim>\<open>Address()\<close> from it.\<close>

definition CreateAccount :: "address \<Rightarrow> StateDB \<Rightarrow> address \<times> StateDB" where
  "CreateAccount addr s = (addr, s\<lparr>accounts := (accounts s)(addr \<mapsto> emptyAccount)\<rparr>)"

definition GetAccount :: "StateDB \<Rightarrow> address \<Rightarrow> address" where
  "GetAccount s addr = addr"

definition GetBalance :: "StateDB \<Rightarrow> address \<Rightarrow> int" where
  "GetBalance s addr = (case accounts s addr of None \<Rightarrow> 0 | Some a \<Rightarrow> Balance a)"

definition AddBalance :: "address \<Rightarrow> int \<Rightarrow> StateDB \<Rightarrow> StateDB" where
  "AddBalance addr amount s =
     s\<lparr>accounts := (accounts s)(addr \<mapsto>
        (getOrNew s addr)\<lparr>Balance := Balance (getOrNew s addr) + amount\<rparr>)\<rparr>"

definition SubBalance :: "address \<Rightarrow> int \<Rightarrow> StateDB \<Rightarrow> StateDB" where
  "SubBalance addr amount s =
     s\<lparr>accounts := (accounts s)(addr \<mapsto>
        (getOrNew s addr)\<lparr>Balance := Balance (getOrNew s addr) - amount\<rparr>)\<rparr>"

definition GetNonce :: "StateDB \<Rightarrow> address \<Rightarrow> 64 word" where
  "GetNonce s addr = (case accounts s addr of None \<Rightarrow> 0 | Some a \<Rightarrow> Nonce a)"

definition SetNonce :: "address \<Rightarrow> 64 word \<Rightarrow> StateDB \<Rightarrow> StateDB" where
  "SetNonce addr n s = s\<lparr>accounts := (accounts s)(addr \<mapsto> (getOrNew s addr)\<lparr>Nonce := n\<rparr>)\<rparr>"

definition GetCode :: "StateDB \<Rightarrow> address \<Rightarrow> bytes" where
  "GetCode s addr = (case accounts s addr of None \<Rightarrow> [] | Some a \<Rightarrow> AccountCode a)"

definition SetCode :: "address \<Rightarrow> bytes \<Rightarrow> StateDB \<Rightarrow> StateDB" where
  "SetCode addr code s =
     s\<lparr>accounts := (accounts s)(addr \<mapsto> (getOrNew s addr)\<lparr>AccountCode := code\<rparr>)\<rparr>"

definition Snapshot :: "StateDB \<Rightarrow> nat \<times> StateDB" where
  "Snapshot s = (length (revisions s), s\<lparr>revisions := revisions s @ [accounts s]\<rparr>)"

definition RevertToSnapshot :: "nat \<Rightarrow> StateDB \<Rightarrow> StateDB" where
  "RevertToSnapshot snapshot s =
     (if snapshot < length (revisions s)
      then s\<lparr>accounts := revisions s ! snapshot, revisions := take snapshot (revisions s)\<rparr>
      else s)"

text \<open>
  \<open>keeps_snapshots s t\<close>: every snapshot that is live in \<open>s\<close> is still live in \<open>t\<close>, with
  the table it saved. This is the nesting discipline of snapshots: code running above a
  snapshot takes and reverts snapshots of its own only. The theorems below ask it of the
  interpreter, between the state view it is started with and the one it leaves; which
  snapshots are live when it starts is for the dispatcher to have arranged.

  \<open>transfer_keeps_snapshots tr\<close>: the transfer function \<open>tr\<close> of the context moves balances
  and leaves the list of live snapshots as it is.
\<close>

definition keeps_snapshots :: "StateDB \<Rightarrow> StateDB \<Rightarrow> bool" where
  "keeps_snapshots s t = (take (length (revisions s)) (revisions t) = revisions s)"

definition transfer_keeps_snapshots ::
  "(StateDB \<Rightarrow> address \<Rightarrow> address \<Rightarrow> int \<Rightarrow> StateDB) \<Rightarrow> bool" where
  "transfer_keeps_snapshots tr =
     (\<forall>db sender recipient amount. revisions (tr db sender recipient amount) = revisions db)"

subsection \<open>Configuration\<close>

text \<open>
  Modelled from the spec: \<^verbatim>\<open>params.ChainConfig\<close> is not among the sources. A fork rule has
  an activation block, or none; it is active at a block number at or after its activation
  block.
\<close>

record ChainConfig =
  HomesteadBlock :: "int option"
  EIP158Block :: "int option"

definition isForked :: "int option \<Rightarrow> int \<Rightarrow> bool" where
  "isForked activation num = (case activation of None \<Rightarrow> False | Some b \<Rightarrow> b \<le> num)"

definition IsHomestead :: "ChainConfig \<Rightarrow> int \<Rightarrow> bool" where
  "IsHomestead c num = isForked (HomesteadBlock c) num"

definition IsEIP158 :: "ChainConfig \<Rightarrow> int \<Rightarrow> bool" where
  "IsEIP158 c num = isForked (EIP158Block c) num"

text \<open>The one option of the virtual machine's \<^verbatim>\<open>Config\<close> that the dispatcher reads.\<close>

record Config =
  NoRecursion :: bool

text \<open>
  The package-level values the dispatcher reads and that are not among the sources, taken
  as parameters: the constants of \<^verbatim>\<open>params\<close>, the table of precompiled contracts (here the
  test \<^verbatim>\<open>PrecompiledContracts[addr] != nil\<close>) and the two functions of \<^verbatim>\<open>crypto\<close>.
\<close>

record Params =
  CallCreateDepth :: int
  MaxCodeSize :: int
  CreateDataGas :: int
  PrecompiledContracts :: "address \<Rightarrow> bool"
  CreateAddress :: "address \<Rightarrow> 64 word \<Rightarrow> address"
  Keccak256Hash :: "bytes \<Rightarrow> hash"

definition GetCodeHash :: "Params \<Rightarrow> StateDB \<Rightarrow> address \<Rightarrow> hash" where
  "GetCodeHash G s addr =
     (case accounts s addr of None \<Rightarrow> 0 | Some a \<Rightarrow> Keccak256Hash G (AccountCode a))"

subsection \<open>Callers and call frames\<close>

text \<open>
  Modelled from the spec: the interface \<^verbatim>\<open>ContractRef\<close> is not among the sources. A caller
  has an address, the value it was called with, the address of its own caller and the gas
  it holds; \<open>ReturnGas\<close> gives gas back to it.
\<close>

record ContractRef =
  Address :: address
  Value :: int
  OwnCaller :: address
  HeldGas :: int

definition ReturnGas :: "int \<Rightarrow> ContractRef \<Rightarrow> ContractRef" where
  "ReturnGas gas caller = caller\<lparr>HeldGas := HeldGas caller + gas\<rparr>"

text \<open>
  Modelled from the spec: the call frame \<^verbatim>\<open>Contract\<close> (\<^verbatim>\<open>contract.go\<close>) is not among the
  sources. A frame has the caller's address, the account it executes in (\<open>self\<close>), the
  code with its hash and the address it was fetched from, the value, the remaining gas and
  the delegate flag. \<open>UseGas\<close> charges an amount if the remaining gas covers it and reports
  whether it did; \<open>AsDelegate\<close> marks the frame and gives it the identity of the caller's
  own caller; \<open>Finalise\<close> releases the frame by returning its remaining gas to the caller.
\<close>

record Contract =
  CallerAddress :: address
  self :: address
  Code :: bytes
  CodeHash :: hash
  CodeAddr :: "address option"
  Val :: int
  Gas :: int
  delegate :: bool

definition NewContract :: "ContractRef \<Rightarrow> address \<Rightarrow> int \<Rightarrow> int \<Rightarrow> Contract" where
  "NewContract caller object val gas =
     \<lparr>CallerAddress = Address caller, self = object, Code = [], CodeHash = 0,
      CodeAddr = None, Val = val, Gas = gas, delegate = False\<rparr>"

definition AsDelegate :: "ContractRef \<Rightarrow> Contract \<Rightarrow> Contract" where
  "AsDelegate caller c = c\<lparr>delegate := True, CallerAddress := OwnCaller caller\<rparr>"

definition SetCallCode :: "address \<Rightarrow> hash \<Rightarrow> bytes \<Rightarrow> Contract \<Rightarrow> Contract" where
  "SetCallCode addr h code c = c\<lparr>Code := code, CodeHash := h, CodeAddr := Some addr\<rparr>"

definition UseGas :: "int \<Rightarrow> Contract \<Rightarrow> bool \<times> Contract" where
  "UseGas amount c = (if Gas c < amount then (False, c) else (True, c\<lparr>Gas := Gas c - amount\<rparr>))"

definition Finalise :: "Contract \<Rightarrow> ContractRef \<Rightarrow> ContractRef" where
  "Finalise c caller = ReturnGas (Gas c) caller"

subsection \<open>The execution context and the machine\<close>

text \<open>The struct \<^verbatim>\<open>Context\<close>; its callbacks take the state view and, for
  \<open>Transfer\<close>, return it updated.\<close>

record Context =
  CanTransfer :: "StateDB \<Rightarrow> address \<Rightarrow> int \<Rightarrow> bool"
  Transfer :: "StateDB \<Rightarrow> address \<Rightarrow> address \<Rightarrow> int \<Rightarrow> StateDB"
  GetHash :: "64 word \<Rightarrow> hash"
  Origin :: address
  GasPrice :: int
  Coinbase :: address
  GasLimit :: int
  BlockNumber :: int
  Time :: int
  Difficulty :: int

text \<open>
  What a run of the interpreter leaves: the output, the error, the gas remaining in the
  frame and the state view. The interpreter itself is not among the sources; it is a field
  of the machine, as in the struct \<^verbatim>\<open>EVM\<close>, and every theorem holds for any interpreter.
  It leaves the depth as it found it.
\<close>

record RunResult =
  r_ret :: bytes
  r_err :: "error option"
  r_gas :: int
  r_state :: StateDB

record EVM =
  Ctx :: Context
  depth :: int
  chainConfig :: ChainConfig
  vmConfig :: Config
  interpreter :: "Contract \<Rightarrow> bytes \<Rightarrow> StateDB \<Rightarrow> RunResult"

text \<open>
  What an entry point returns: the output and the error, together with what it did to its
  surroundings: the caller after gas was returned to it, the frame as the call left it
  (\<open>None\<close> when no frame was built) and the state view.
\<close>

record Outcome =
  ret :: bytes
  err :: "error option"
  caller_after :: ContractRef
  frame :: "Contract option"
  state :: StateDB

record CreateOutcome = Outcome +
  contractAddr :: address

subsection \<open>Call\<close>

text \<open>
  Each entry point is embedded in two parts, cut where the source calls
  \<^verbatim>\<open>evm.interpreter.Run\<close>. The first part is everything before that call: it returns
  early (\<open>Inl\<close>), or it yields the snapshot, the frame and the state view that the
  interpreter is started with (\<open>Inr\<close>). The second part runs the interpreter and settles
  the result. The deferred \<^verbatim>\<open>contract.Finalise()\<close> runs on every return after the frame
  was built.

  \<open>CallFrame\<close> is lines 107 to 147 of \<^verbatim>\<open>environment.go\<close>, \<open>Call\<close> lines 149 to 158.
\<close>

definition CallFrame ::
  "Params \<Rightarrow> EVM \<Rightarrow> ContractRef \<Rightarrow> address \<Rightarrow> int \<Rightarrow> int \<Rightarrow> StateDB
     \<Rightarrow> Outcome + (nat \<times> Contract \<times> StateDB)" where
  "CallFrame G evm caller addr gas val s =
     (if NoRecursion (vmConfig evm) \<and> depth evm > 0 then
        Inl \<lparr>ret = [], err = None, caller_after = ReturnGas gas caller,
             frame = None, state = s\<rparr>
      else if depth evm > CallCreateDepth G then
        Inl \<lparr>ret = [], err = Some ErrDepth, caller_after = ReturnGas gas caller,
             frame = None, state = s\<rparr>
      else if \<not> CanTransfer (Ctx evm) s (Address caller) val then
        Inl \<lparr>ret = [], err = Some ErrInsufficientBalance, caller_after = ReturnGas gas caller,
             frame = None, state = s\<rparr>
      else
        let (snapshot, s1) = Snapshot s;
            account =
              (if \<not> Exist s1 addr then
                 (if \<not> PrecompiledContracts G addr
                      \<and> IsEIP158 (chainConfig evm) (BlockNumber (Ctx evm)) \<and> val = 0
                  then None
                  else Some (CreateAccount addr s1))
               else Some (GetAccount s1 addr, s1))
        in case account of
             None \<Rightarrow>
               Inl \<lparr>ret = [], err = None, caller_after = ReturnGas gas caller,
                    frame = None, state = s1\<rparr>
           | Some (to, s2) \<Rightarrow>
               let s3 = Transfer (Ctx evm) s2 (Address caller) to val;
                   contract = NewContract caller to val gas;
                   contract = SetCallCode addr (GetCodeHash G s3 addr) (GetCode s3 addr) contract
               in Inr (snapshot, contract, s3))"

definition Call ::
  "Params \<Rightarrow> EVM \<Rightarrow> ContractRef \<Rightarrow> address \<Rightarrow> bytes \<Rightarrow> int \<Rightarrow> int \<Rightarrow> StateDB \<Rightarrow> Outcome" where
  "Call G evm caller addr input gas val s =
     (case CallFrame G evm caller addr gas val s of
        Inl out \<Rightarrow> out
      | Inr (snapshot, contract, s1) \<Rightarrow>
          let r = interpreter evm contract input s1;
              contract = contract\<lparr>Gas := r_gas r\<rparr>
          in if r_err r \<noteq> None then
               let contract = snd (UseGas (Gas contract) contract)
               in \<lparr>ret = r_ret r, err = r_err r, caller_after = Finalise contract caller,
                   frame = Some contract, state = RevertToSnapshot snapshot (r_state r)\<rparr>
             else
               \<lparr>ret = r_ret r, err = r_err r, caller_after = Finalise contract caller,
                frame = Some contract, state = r_state r\<rparr>)"

subsection \<open>CallCode\<close>

text \<open>\<open>CallCodeFrame\<close> is lines 167 to 195, \<open>CallCode\<close> lines 197 to 204. The frame
  executes in the caller's own account; no account is created and no value is moved.\<close>

definition CallCodeFrame ::
  "Params \<Rightarrow> EVM \<Rightarrow> ContractRef \<Rightarrow> address \<Rightarrow> int \<Rightarrow> int \<Rightarrow> StateDB
     \<Rightarrow> Outcome + (nat \<times> Contract \<times> StateDB)" where
  "CallCodeFrame G evm caller addr gas val s =
     (if NoRecursion (vmConfig evm) \<and> depth evm > 0 then
        Inl \<lparr>ret = [], err = None, caller_after = ReturnGas gas caller,
             frame = None, state = s\<rparr>
      else if depth evm > CallCreateDepth G then
        Inl \<lparr>ret = [], err = Some ErrDepth, caller_after = ReturnGas gas caller,
             frame = None, state = s\<rparr>
      else if \<not> CanTransfer (Ctx evm) s (Address caller) val then
        Inl \<lparr>ret = [], err = Some (ErrInsufficientFunds val (GetBalance s (Address caller))),
             caller_after = ReturnGas gas caller, frame = None, state = s\<rparr>
      else
        let (snapshot, s1) = Snapshot s;
            to = GetAccount s1 (Address caller);
            contract = NewContract caller to val gas;
            contract = SetCallCode addr (GetCodeHash G s1 addr) (GetCode s1 addr) contract
        in Inr (snapshot, contract, s1))"

definition CallCode ::
  "Params \<Rightarrow> EVM \<Rightarrow> ContractRef \<Rightarrow> address \<Rightarrow> bytes \<Rightarrow> int \<Rightarrow> int \<Rightarrow> StateDB \<Rightarrow> Outcome" where
  "CallCode G evm caller addr input gas val s =
     (case CallCodeFrame G evm caller addr gas val s of
        Inl out \<Rightarrow> out
      | Inr (snapshot, contract, s1) \<Rightarrow>
          let r = interpreter evm contract input s1;
              contract = contract\<lparr>Gas := r_gas r\<rparr>
          in if r_err r \<noteq> None then
               let contract = snd (UseGas (Gas contract) contract)
               in \<lparr>ret = r_ret r, err = r_err r, caller_after = Finalise contract caller,
                   frame = Some contract, state = RevertToSnapshot snapshot (r_state r)\<rparr>
             else
               \<lparr>ret = r_ret r, err = r_err r, caller_after = Finalise contract caller,
                frame = Some contract, state = r_state r\<rparr>)"

subsection \<open>DelegateCall\<close>

text \<open>\<open>DelegateCallFrame\<close> is lines 213 to 234, \<open>DelegateCall\<close> lines 236 to 243.\<close>

definition DelegateCallFrame ::
  "Params \<Rightarrow> EVM \<Rightarrow> ContractRef \<Rightarrow> address \<Rightarrow> int \<Rightarrow> StateDB
     \<Rightarrow> Outcome + (nat \<times> Contract \<times> StateDB)" where
  "DelegateCallFrame G evm caller addr gas s =
     (if NoRecursion (vmConfig evm) \<and> depth evm > 0 then
        Inl \<lparr>ret = [], err = None, caller_after = ReturnGas gas caller,
             frame = None, state = s\<rparr>
      else if depth evm > CallCreateDepth G then
        Inl \<lparr>ret = [], err = Some ErrDepth, caller_after = ReturnGas gas caller,
             frame = None, state = s\<rparr>
      else
        let (snapshot, s1) = Snapshot s;
            to = GetAccount s1 (Address caller);
            contract = AsDelegate caller (NewContract caller to (Value caller) gas);
            contract = SetCallCode addr (GetCodeHash G s1 addr) (GetCode s1 addr) contract
        in Inr (snapshot, contract, s1))"

definition DelegateCall ::
  "Params \<Rightarrow> EVM \<Rightarrow> ContractRef \<Rightarrow> address \<Rightarrow> bytes \<Rightarrow> int \<Rightarrow> StateDB \<Rightarrow> Outcome" where
  "DelegateCall G evm caller addr input gas s =
     (case DelegateCallFrame G evm caller addr gas s of
        Inl out \<Rightarrow> out
      | Inr (snapshot, contract, s1) \<Rightarrow>
          let r = interpreter evm contract input s1;
              contract = contract\<lparr>Gas := r_gas r\<rparr>
          in if r_err r \<noteq> None then
               let contract = snd (UseGas (Gas contract) contract)
               in \<lparr>ret = r_ret r, err = r_err r, caller_after = Finalise contract caller,
                   frame = Some contract, state = RevertToSnapshot snapshot (r_state r)\<rparr>
             else
               \<lparr>ret = r_ret r, err = r_err r, caller_after = Finalise contract caller,
                frame = Some contract, state = r_state r\<rparr>)"

subsection \<open>Create\<close>

text \<open>\<open>CreateFrame\<close> is lines 250 to 289, \<open>Create\<close> lines 291 to 339. The early returns
  give the zero address \<^verbatim>\<open>common.Address{}\<close>; the interpreter is run on the init code with
  no input.\<close>

definition CreateFrame ::
  "Params \<Rightarrow> EVM \<Rightarrow> ContractRef \<Rightarrow> bytes \<Rightarrow> int \<Rightarrow> int \<Rightarrow> StateDB
     \<Rightarrow> CreateOutcome + (nat \<times> address \<times> Contract \<times> StateDB)" where
  "CreateFrame G evm caller code gas val s =
     (if NoRecursion (vmConfig evm) \<and> depth evm > 0 then
        Inl \<lparr>ret = [], err = None, caller_after = ReturnGas gas caller,
             frame = None, state = s, contractAddr = 0\<rparr>
      else if depth evm > CallCreateDepth G then
        Inl \<lparr>ret = [], err = Some ErrDepth, caller_after = ReturnGas gas caller,
             frame = None, state = s, contractAddr = 0\<rparr>
      else if \<not> CanTransfer (Ctx evm) s (Address caller) val then
        Inl \<lparr>ret = [], err = Some ErrInsufficientBalance, caller_after = ReturnGas gas caller,
             frame = None, state = s, contractAddr = 0\<rparr>
      else
        let nonce = GetNonce s (Address caller);
            s1 = SetNonce (Address caller) (nonce + 1) s;
            (snapshot, s2) = Snapshot s1;
            caddr = CreateAddress G (Address caller) nonce;
            (to, s3) = CreateAccount caddr s2;
            s4 = (if IsEIP158 (chainConfig evm) (BlockNumber (Ctx evm))
                  then SetNonce caddr 1 s3 else s3);
            s5 = Transfer (Ctx evm) s4 (Address caller) to val;
            contract = NewContract caller to val gas;
            contract = SetCallCode caddr (Keccak256Hash G code) code contract
        in Inr (snapshot, caddr, contract, s5))"

definition Create ::
  "Params \<Rightarrow> EVM \<Rightarrow> ContractRef \<Rightarrow> bytes \<Rightarrow> int \<Rightarrow> int \<Rightarrow> StateDB \<Rightarrow> CreateOutcome" where
  "Create G evm caller code gas val s =
     (case CreateFrame G evm caller code gas val s of
        Inl out \<Rightarrow> out
      | Inr (snapshot, caddr, contract, s1) \<Rightarrow>
          let r = interpreter evm contract [] s1;
              contract = contract\<lparr>Gas := r_gas r\<rparr>;
              maxCodeSizeExceeded = (int (length (r_ret r)) > MaxCodeSize G);
              (contract, s2, err1) =
                (if r_err r = None \<and> \<not> maxCodeSizeExceeded then
                   let dataGas = int (length (r_ret r)) * CreateDataGas G;
                       (ok, contract) = UseGas dataGas contract
                   in if ok then (contract, SetCode caddr (r_ret r) (r_state r), r_err r)
                      else (contract, r_state r, Some ErrCodeStoreOutOfGas)
                 else (contract, r_state r, r_err r))
          in if maxCodeSizeExceeded
                \<or> (err1 \<noteq> None
                    \<and> (IsHomestead (chainConfig evm) (BlockNumber (Ctx evm))
                        \<or> err1 \<noteq> Some ErrCodeStoreOutOfGas)) then
               let contract = snd (UseGas (Gas contract) contract);
                   s3 = RevertToSnapshot snapshot s2;
                   err2 = (if maxCodeSizeExceeded \<and> err1 = None
                           then Some ErrCodeStoreOutOfGas else err1)
               in \<lparr>ret = [], err = err2, caller_after = Finalise contract caller,
                   frame = Some contract, state = s3, contractAddr = caddr\<rparr>
             else
               \<lparr>ret = (if err1 \<noteq> None then [] else r_ret r), err = err1,
                caller_after = Finalise contract caller, frame = Some contract,
                state = s2, contractAddr = caddr\<rparr>)"

subsection \<open>A test configuration\<close>

text \<open>
  Concrete values on which the theorems below are instantiated: the constants of the main
  network, with stand-ins for the two functions of \<^verbatim>\<open>crypto\<close>; the balance check and the
  balance move of \<^verbatim>\<open>core\<close>; an interpreter that writes to its account, takes a snapshot of
  its own and faults, and one that returns given bytes.
\<close>

definition testParams :: Params where
  "testParams =
     \<lparr>CallCreateDepth = 1024, MaxCodeSize = 24576, CreateDataGas = 200,
      PrecompiledContracts = (\<lambda>a. a = 1 \<or> a = 2 \<or> a = 3 \<or> a = 4),
      CreateAddress = (\<lambda>a n. a + ucast n + 1),
      Keccak256Hash = (\<lambda>b. of_nat (length b))\<rparr>"

definition testChain :: ChainConfig where
  "testChain = \<lparr>HomesteadBlock = Some 1150000, EIP158Block = Some 2675000\<rparr>"

definition coreCanTransfer :: "StateDB \<Rightarrow> address \<Rightarrow> int \<Rightarrow> bool" where
  "coreCanTransfer db addr amount = (amount \<le> GetBalance db addr)"

definition coreTransfer :: "StateDB \<Rightarrow> address \<Rightarrow> address \<Rightarrow> int \<Rightarrow> StateDB" where
  "coreTransfer db sender recipient amount =
     AddBalance recipient amount (SubBalance sender amount db)"

definition testContext :: "int \<Rightarrow> Context" where
  "testContext num =
     \<lparr>CanTransfer = coreCanTransfer, Transfer = coreTransfer, GetHash = (\<lambda>n. 0),
      Origin = 10, GasPrice = 1, Coinbase = 0, GasLimit = 4712388, BlockNumber = num,
      Time = 0, Difficulty = 0\<rparr>"

definition faultingRun :: "Contract \<Rightarrow> bytes \<Rightarrow> StateDB \<Rightarrow> RunResult" where
  "faultingRun c input s =
     \<lparr>r_ret = [], r_err = Some (ExecutionFault ''invalid opcode''), r_gas = Gas c - 3,
      r_state = snd (Snapshot (SetCode (self c) [254] s))\<rparr>"

definition returningRun :: "bytes \<Rightarrow> Contract \<Rightarrow> bytes \<Rightarrow> StateDB \<Rightarrow> RunResult" where
  "returningRun out c input s = \<lparr>r_ret = out, r_err = None, r_gas = Gas c - 3, r_state = s\<rparr>"

definition testEVM ::
  "int \<Rightarrow> int \<Rightarrow> bool \<Rightarrow> (Contract \<Rightarrow> bytes \<Rightarrow> StateDB \<Rightarrow> RunResult) \<Rightarrow> EVM" where
  "testEVM num d norec run =
     \<lparr>Ctx = testContext num, depth = d, chainConfig = testChain,
      vmConfig = \<lparr>NoRecursion = norec\<rparr>, interpreter = run\<rparr>"

definition alice :: ContractRef where
  "alice = \<lparr>Address = 10, Value = 0, OwnCaller = 11, HeldGas = 0\<rparr>"

definition testState :: StateDB where
  "testState =
     \<lparr>accounts = [10 \<mapsto> \<lparr>Balance = 100, Nonce = 7, AccountCode = [], Storage = Map.empty\<rparr>],
      revisions = []\<rparr>"

section \<open>Properties of the dispatcher\<close>

subsection \<open>Definitions unfolded together\<close>

lemmas state_defs = Exist_def CreateAccount_def GetAccount_def GetBalance_def GetNonce_def
  SetNonce_def GetCode_def SetCode_def Snapshot_def RevertToSnapshot_def getOrNew_def
  emptyAccount_def AddBalance_def SubBalance_def GetCodeHash_def keeps_snapshots_def
  transfer_keeps_snapshots_def
lemmas frame_defs = NewContract_def AsDelegate_def SetCallCode_def UseGas_def Finalise_def
  ReturnGas_def
lemmas config_defs = isForked_def IsHomestead_def IsEIP158_def
lemmas test_defs = testParams_def testChain_def coreCanTransfer_def coreTransfer_def
  testContext_def faultingRun_def returningRun_def testEVM_def alice_def testState_def

subsection \<open>Snapshots\<close>

text \<open>
  If the last snapshot live in \<open>s1\<close> is the one that saved the account table of \<open>s\<close>, above
  the snapshots live in \<open>s\<close>, and \<open>t\<close> keeps the snapshots of \<open>s1\<close>, then reverting \<open>t\<close> to
  that snapshot gives back \<open>s\<close>.
\<close>

lemma revert_to_live_snapshot:
  assumes taken: "revisions s1 = revisions s @ [accounts s]"
    and kept: "keeps_snapshots s1 t"
  shows "RevertToSnapshot (length (revisions s)) t = s"
proof -
  let ?n = "length (revisions s)"
  from kept have tk: "take (Suc ?n) (revisions t) = revisions s @ [accounts s]"
    by (simp add: keeps_snapshots_def taken)
  then have "length (take (Suc ?n) (revisions t)) = Suc ?n" by simp
  then have len: "?n < length (revisions t)" by simp
  have "revisions t ! ?n = take (Suc ?n) (revisions t) ! ?n" by simp
  also have "\<dots> = accounts s" by (simp only: tk) simp
  finally have nth: "revisions t ! ?n = accounts s" .
  have "take ?n (revisions t) = take ?n (take (Suc ?n) (revisions t))" by simp
  also have "\<dots> = revisions s" by (simp only: tk) simp
  finally have tk2: "take ?n (revisions t) = revisions s" .
  show ?thesis
    using len nth tk2 by (simp add: RevertToSnapshot_def)
qed

text \<open>
  What each first part has arranged when it hands over to the interpreter: the snapshot
  it returns is the last one live in the state view \<open>s1\<close> it yields, it saved the account
  table the invocation started with (in \<open>Create\<close>: that table after the nonce increment),
  and the snapshots live before are beneath it.
\<close>

lemma CallFrame_entry:
  assumes "transfer_keeps_snapshots (Transfer (Ctx evm))"
    and "CallFrame G evm caller addr gas val s = Inr (snapshot, c, s1)"
  shows "snapshot = length (revisions s) \<and> revisions s1 = revisions s @ [accounts s]"
  using assms
  by (auto simp add: CallFrame_def Let_def Snapshot_def CreateAccount_def GetAccount_def
        transfer_keeps_snapshots_def split: if_splits)

lemma CallCodeFrame_entry:
  assumes "CallCodeFrame G evm caller addr gas val s = Inr (snapshot, c, s1)"
  shows "snapshot = length (revisions s) \<and> revisions s1 = revisions s @ [accounts s]"
  using assms
  by (auto simp add: CallCodeFrame_def Let_def Snapshot_def split: if_splits)

lemma DelegateCallFrame_entry:
  assumes "DelegateCallFrame G evm caller addr gas s = Inr (snapshot, c, s1)"
  shows "snapshot = length (revisions s) \<and> revisions s1 = revisions s @ [accounts s]"
  using assms
  by (auto simp add: DelegateCallFrame_def Let_def Snapshot_def split: if_splits)

lemma CreateFrame_entry:
  assumes "transfer_keeps_snapshots (Transfer (Ctx evm))"
    and "CreateFrame G evm caller code gas val s = Inr (snapshot, a, c, s1)"
  shows "snapshot = length (revisions s)
    \<and> revisions s1
        = revisions (SetNonce (Address caller) (GetNonce s (Address caller) + 1) s)
          @ [accounts (SetNonce (Address caller) (GetNonce s (Address caller) + 1) s)]"
  using assms
  by (auto simp add: CreateFrame_def Let_def Snapshot_def CreateAccount_def SetNonce_def
        transfer_keeps_snapshots_def split: if_splits)

subsection \<open>The interpreter's result settles the call\<close>

lemma CallFrame_snapshot:
  "CallFrame G evm caller addr gas val s = Inr (snapshot, c, s1) \<Longrightarrow> snapshot = fst (Snapshot s)"
  by (auto simp: CallFrame_def Let_def split: if_splits prod.splits option.splits)

lemma CallCodeFrame_snapshot:
  "CallCodeFrame G evm caller addr gas val s = Inr (snapshot, c, s1) \<Longrightarrow> snapshot = fst (Snapshot s)"
  by (auto simp: CallCodeFrame_def Let_def split: if_splits prod.splits)

lemma DelegateCallFrame_snapshot:
  "DelegateCallFrame G evm caller addr gas s = Inr (snapshot, c, s1) \<Longrightarrow> snapshot = fst (Snapshot s)"
  by (auto simp: DelegateCallFrame_def Let_def split: if_splits prod.splits)

lemma ReturnGas_zero: "ReturnGas 0 caller = caller"
  by (simp add: ReturnGas_def)

lemma Call_fault:
  assumes "CallFrame G evm caller addr gas val s = Inr (snapshot, c, s1)"
    and "r_err (interpreter evm c input s1) \<noteq> None"
  shows "Call G evm caller addr input gas val s =
           \<lparr>ret = r_ret (interpreter evm c input s1), err = r_err (interpreter evm c input s1),
            caller_after = caller, frame = Some (c\<lparr>Gas := 0\<rparr>),
            state = RevertToSnapshot snapshot (r_state (interpreter evm c input s1))\<rparr>"
  using assms by (simp add: Call_def Let_def UseGas_def Finalise_def ReturnGas_zero)

lemma Call_success:
  assumes "CallFrame G evm caller addr gas val s = Inr (snapshot, c, s1)"
    and "r_err (interpreter evm c input s1) = None"
  shows "Call G evm caller addr input gas val s =
           \<lparr>ret = r_ret (interpreter evm c input s1), err = None,
            caller_after = ReturnGas (r_gas (interpreter evm c input s1)) caller,
            frame = Some (c\<lparr>Gas := r_gas (interpreter evm c input s1)\<rparr>),
            state = r_state (interpreter evm c input s1)\<rparr>"
  using assms by (simp add: Call_def Let_def Finalise_def)

lemma CallCode_fault:
  assumes "CallCodeFrame G evm caller addr gas val s = Inr (snapshot, c, s1)"
    and "r_err (interpreter evm c input s1) \<noteq> None"
  shows "CallCode G evm caller addr input gas val s =
           \<lparr>ret = r_ret (interpreter evm c input s1), err = r_err (interpreter evm c input s1),
            caller_after = caller, frame = Some (c\<lparr>Gas := 0\<rparr>),
            state = RevertToSnapshot snapshot (r_state (interpreter evm c input s1))\<rparr>"
  using assms by (simp add: CallCode_def Let_def UseGas_def Finalise_def ReturnGas_zero)

lemma CallCode_success:
  assumes "CallCodeFrame G evm caller addr gas val s = Inr (snapshot, c, s1)"
    and "r_err (interpreter evm c input s1) = None"
  shows "CallCode G evm caller addr input gas val s =
           \<lparr>ret = r_ret (interpreter evm c input s1), err = None,
            caller_after = ReturnGas (r_gas (interpreter evm c input s1)) caller,
            frame = Some (c\<lparr>Gas := r_gas (interpreter evm c input s1)\<rparr>),
            state = r_state (interpreter evm c input s1)\<rparr>"
  using assms by (simp add: CallCode_def Let_def Finalise_def)

lemma DelegateCall_fault:
  assumes "DelegateCallFrame G evm caller addr gas s = Inr (snapshot, c, s1)"
    and "r_err (interpreter evm c input s1) \<noteq> None"
  shows "DelegateCall G evm caller addr input gas s =
           \<lparr>ret = r_ret (interpreter evm c input s1), err = r_err (interpreter evm c input s1),
            caller_after = caller, frame = Some (c\<lparr>Gas := 0\<rparr>),
            state = RevertToSnapshot snapshot (r_state (interpreter evm c input s1))\<rparr>"
  using assms by (simp add: DelegateCall_def Let_def UseGas_def Finalise_def ReturnGas_zero)

lemma DelegateCall_success:
  assumes "DelegateCallFrame G evm caller addr gas s = Inr (snapshot, c, s1)"
    and "r_err (interpreter evm c input s1) = None"
  shows "DelegateCall G evm caller addr input gas s =
           \<lparr>ret = r_ret (interpreter evm c input s1), err = None,
            caller_after = ReturnGas (r_gas (interpreter evm c input s1)) caller,
            frame = Some (c\<lparr>Gas := r_gas (interpreter evm c input s1)\<rparr>),
            state = r_state (interpreter evm c input s1)\<rparr>"
  using assms by (simp add: DelegateCall_def Let_def Finalise_def)

lemma Call_run:
  assumes f: "CallFrame G evm caller addr gas val s = Inr (snapshot, c, s1)"
  shows "let r = interpreter evm c input s1; out = Call G evm caller addr input gas val s in
           (r_err r \<noteq> None \<longrightarrow>
              err out = r_err r \<and> ret out = r_ret r
              \<and> frame out = Some (c\<lparr>Gas := 0\<rparr>) \<and> caller_after out = caller
              \<and> snapshot = fst (Snapshot s)
              \<and> state out = RevertToSnapshot snapshot (r_state r)
              \<and> (transfer_keeps_snapshots (Transfer (Ctx evm)) \<longrightarrow>
                keeps_snapshots s1 (r_state r) \<longrightarrow> state out = s))
           \<and> (r_err r = None \<longrightarrow>
              err out = None \<and> ret out = r_ret r \<and> state out = r_state r)"
proof (cases "r_err (interpreter evm c input s1) = None")
  case True
  then show ?thesis
    by (simp add: Call_success [OF f True] Let_def)
next
  case False
  have sn: "snapshot = fst (Snapshot s)"
    by (rule CallFrame_snapshot [OF f])
  have kept: "RevertToSnapshot snapshot (r_state (interpreter evm c input s1)) = s"
    if "transfer_keeps_snapshots (Transfer (Ctx evm))"
      and "keeps_snapshots s1 (r_state (interpreter evm c input s1))"
    using CallFrame_entry [OF that(1) f] revert_to_live_snapshot [OF _ that(2)] by simp
  from False obtain e where e: "r_err (interpreter evm c input s1) = Some e"
    by auto
  from sn kept show ?thesis
    by (simp add: Call_fault [OF f False] Let_def e)
qed

lemma CallCode_run:
  assumes f: "CallCodeFrame G evm caller addr gas val s = Inr (snapshot, c, s1)"
  shows "let r = interpreter evm c input s1; out = CallCode G evm caller addr input gas val s in
           (r_err r \<noteq> None \<longrightarrow>
              err out = r_err r \<and> ret out = r_ret r
              \<and> frame out = Some (c\<lparr>Gas := 0\<rparr>) \<and> caller_after out = caller
              \<and> snapshot = fst (Snapshot s)
              \<and> state out = RevertToSnapshot snapshot (r_state r)
              \<and> (keeps_snapshots s1 (r_state r) \<longrightarrow> state out = s))
           \<and> (r_err r = None \<longrightarrow>
              err out = None \<and> ret out = r_ret r \<and> state out = r_state r)"
proof (cases "r_err (interpreter evm c input s1) = None")
  case True
  then show ?thesis
    by (simp add: CallCode_success [OF f True] Let_def)
next
  case False
  have sn: "snapshot = fst (Snapshot s)"
    by (rule CallCodeFrame_snapshot [OF f])
  have kept: "RevertToSnapshot snapshot (r_state (interpreter evm c input s1)) = s"
    if "keeps_snapshots s1 (r_state (interpreter evm c input s1))"
    using CallCodeFrame_entry [OF f] revert_to_live_snapshot [OF _ that] by simp
  from False obtain e where e: "r_err (interpreter evm c input s1) = Some e"
    by auto
  from sn kept show ?thesis
    by (simp add: CallCode_fault [OF f False] Let_def e)
qed

lemma DelegateCall_run:
  assumes f: "DelegateCallFrame G evm caller addr gas s = Inr (snapshot, c, s1)"
  shows "let r = interpreter evm c input s1; out = DelegateCall G evm caller addr input gas s in
           (r_err r \<noteq> None \<longrightarrow>
              err out = r_err r \<and> ret out = r_ret r
              \<and> frame out = Some (c\<lparr>Gas := 0\<rparr>) \<and> caller_after out = caller
              \<and> snapshot = fst (Snapshot s)
              \<and> state out = RevertToSnapshot snapshot (r_state r)
              \<and> (keeps_snapshots s1 (r_state r) \<longrightarrow> state out = s))
           \<and> (r_err r = None \<longrightarrow>
              err out = None \<and> ret out = r_ret r \<and> state out = r_state r)"
proof (cases "r_err (interpreter evm c input s1) = None")
  case True
  then show ?thesis
    by (simp add: DelegateCall_success [OF f True] Let_def)
next
  case False
  have sn: "snapshot = fst (Snapshot s)"
    by (rule DelegateCallFrame_snapshot [OF f])
  have kept: "RevertToSnapshot snapshot (r_state (interpreter evm c input s1)) = s"
    if "keeps_snapshots s1 (r_state (interpreter evm c input s1))"
    using DelegateCallFrame_entry [OF f] revert_to_live_snapshot [OF _ that] by simp
  from False obtain e where e: "r_err (interpreter evm c input s1) = Some e"
    by auto
  from sn kept show ?thesis
    by (simp add: DelegateCall_fault [OF f False] Let_def e)
qed

text \<open>
  Claim C3. In every invocation of \<open>Call\<close>, \<open>CallCode\<close> or \<open>DelegateCall\<close> that reaches the
  interpreter (the first part yields a snapshot, a frame \<open>c\<close> and a state view \<open>s1\<close>):
  if the interpreter returns an error, that error and the interpreter's output are returned
  unchanged, the frame is left with no gas and nothing is returned to the caller, and the
  state view is reverted to the snapshot taken at the start of the invocation; when the
  interpreter kept the snapshots that were live in the state view it was started with
  (and, in \<open>Call\<close>, the transfer function left the snapshots alone), the state view is
  exactly the one the invocation started with. If the interpreter returns no error,
  nothing is reverted: the state view is the one the interpreter left, and its output is
  returned as it is.
\<close>

theorem interpreter_fault_consumes_gas_and_reverts:
  "(\<forall>snapshot c s1. CallFrame G evm caller addr gas val s = Inr (snapshot, c, s1) \<longrightarrow>
      (let r = interpreter evm c input s1; out = Call G evm caller addr input gas val s in
         (r_err r \<noteq> None \<longrightarrow>
            err out = r_err r \<and> ret out = r_ret r
            \<and> frame out = Some (c\<lparr>Gas := 0\<rparr>) \<and> caller_after out = caller
            \<and> snapshot = fst (Snapshot s)
            \<and> state out = RevertToSnapshot snapshot (r_state r)
            \<and> (transfer_keeps_snapshots (Transfer (Ctx evm)) \<longrightarrow>
                keeps_snapshots s1 (r_state r) \<longrightarrow> state out = s))
         \<and> (r_err r = None \<longrightarrow>
            err out = None \<and> ret out = r_ret r \<and> state out = r_state r)))
   \<and> (\<forall>snapshot c s1. CallCodeFrame G evm caller addr gas val s = Inr (snapshot, c, s1) \<longrightarrow>
      (let r = interpreter evm c input s1; out = CallCode G evm caller addr input gas val s in
         (r_err r \<noteq> None \<longrightarrow>
            err out = r_err r \<and> ret out = r_ret r
            \<and> frame out = Some (c\<lparr>Gas := 0\<rparr>) \<and> caller_after out = caller
            \<and> snapshot = fst (Snapshot s)
            \<and> state out = RevertToSnapshot snapshot (r_state r)
            \<and> (keeps_snapshots s1 (r_state r) \<longrightarrow> state out = s))
         \<and> (r_err r = None \<longrightarrow>
            err out = None \<and> ret out = r_ret r \<and> state out = r_state r)))
   \<and> (\<forall>snapshot c s1. DelegateCallFrame G evm caller addr gas s = Inr (snapshot, c, s1) \<longrightarrow>
      (let r = interpreter evm c input s1; out = DelegateCall G evm caller addr input gas s in
         (r_err r \<noteq> None \<longrightarrow>
            err out = r_err r \<and> ret out = r_ret r
            \<and> frame out = Some (c\<lparr>Gas := 0\<rparr>) \<and> caller_after out = caller
            \<and> snapshot = fst (Snapshot s)
            \<and> state out = RevertToSnapshot snapshot (r_state r)
            \<and> (keeps_snapshots s1 (r_state r) \<longrightarrow> state out = s))
         \<and> (r_err r = None \<longrightarrow>
            err out = None \<and> ret out = r_ret r \<and> state out = r_state r)))"
  using Call_run CallCode_run DelegateCall_run by (intro conjI allI impI) blast+

theorem interpreter_fault_consumes_gas_and_reverts_witness:
  "\<not> isl (CallFrame testParams (testEVM 3000000 0 False faultingRun) alice 12 50000 10 testState)
   \<and> r_err (faultingRun
        (fst (snd (projr (CallFrame testParams (testEVM 3000000 0 False faultingRun) alice 12
                           50000 10 testState))))
        []
        (snd (snd (projr (CallFrame testParams (testEVM 3000000 0 False faultingRun) alice 12
                           50000 10 testState))))) \<noteq> None
   \<and> transfer_keeps_snapshots (Transfer (Ctx (testEVM 3000000 0 False faultingRun)))
   \<and> keeps_snapshots
        (snd (snd (projr (CallFrame testParams (testEVM 3000000 0 False faultingRun) alice 12
                            50000 10 testState))))
        (r_state (faultingRun
           (fst (snd (projr (CallFrame testParams (testEVM 3000000 0 False faultingRun) alice 12
                              50000 10 testState))))
           []
           (snd (snd (projr (CallFrame testParams (testEVM 3000000 0 False faultingRun) alice 12
                              50000 10 testState))))))
   \<and> keeps_snapshots
        (snd (snd (projr (CallCodeFrame testParams (testEVM 3000000 0 False faultingRun) alice 12
                            50000 10 testState))))
        (r_state (faultingRun
           (fst (snd (projr (CallCodeFrame testParams (testEVM 3000000 0 False faultingRun)
                              alice 12 50000 10 testState))))
           []
           (snd (snd (projr (CallCodeFrame testParams (testEVM 3000000 0 False faultingRun)
                              alice 12 50000 10 testState))))))
   \<and> keeps_snapshots
        (snd (snd (projr (DelegateCallFrame testParams (testEVM 3000000 0 False faultingRun)
                            alice 12 50000 testState))))
        (r_state (faultingRun
           (fst (snd (projr (DelegateCallFrame testParams (testEVM 3000000 0 False faultingRun)
                              alice 12 50000 testState))))
           []
           (snd (snd (projr (DelegateCallFrame testParams (testEVM 3000000 0 False faultingRun)
                              alice 12 50000 testState))))))
   \<and> Call testParams (testEVM 3000000 0 False faultingRun) alice 12 [] 50000 10 testState =
       \<lparr>ret = [], err = Some (ExecutionFault ''invalid opcode''), caller_after = alice,
        frame = Some \<lparr>CallerAddress = 10, self = 12, Code = [], CodeHash = 0,
                      CodeAddr = Some 12, Val = 10, Gas = 0, delegate = False\<rparr>,
        state = testState\<rparr>
   \<and> \<not> isl (CallCodeFrame testParams (testEVM 3000000 0 False faultingRun) alice 12 50000 10 testState)
   \<and> CallCode testParams (testEVM 3000000 0 False faultingRun) alice 12 [] 50000 10 testState =
       \<lparr>ret = [], err = Some (ExecutionFault ''invalid opcode''), caller_after = alice,
        frame = Some \<lparr>CallerAddress = 10, self = 10, Code = [], CodeHash = 0,
                      CodeAddr = Some 12, Val = 10, Gas = 0, delegate = False\<rparr>,
        state = testState\<rparr>
   \<and> \<not> isl (DelegateCallFrame testParams (testEVM 3000000 0 False faultingRun) alice 12 50000 testState)
   \<and> DelegateCall testParams (testEVM 3000000 0 False faultingRun) alice 12 [] 50000 testState =
       \<lparr>ret = [], err = Some (ExecutionFault ''invalid opcode''), caller_after = alice,
        frame = Some \<lparr>CallerAddress = 11, self = 10, Code = [], CodeHash = 0,
                      CodeAddr = Some 12, Val = 0, Gas = 0, delegate = True\<rparr>,
        state = testState\<rparr>
   \<and> \<not> isl (CallFrame testParams (testEVM 3000000 0 False (returningRun [1, 2])) alice 12 50000 10 testState)
   \<and> ret (Call testParams (testEVM 3000000 0 False (returningRun [1, 2])) alice 12 [1] 50000 10 testState) = [1, 2]
   \<and> err (Call testParams (testEVM 3000000 0 False (returningRun [1, 2])) alice 12 [1] 50000 10 testState) = None
   \<and> GetBalance (state (Call testParams (testEVM 3000000 0 False (returningRun [1, 2])) alice 12 [1] 50000 10 testState)) 12 = 10"
  using interpreter_fault_consumes_gas_and_reverts
          [where G = testParams and evm = "testEVM 3000000 0 False faultingRun"
             and caller = alice and addr = 12 and gas = 50000 and val = 10 and s = testState
             and input = "[]"]
        interpreter_fault_consumes_gas_and_reverts
          [where G = testParams and evm = "testEVM 3000000 0 False (returningRun [1, 2])"
             and caller = alice and addr = 12 and gas = 50000 and val = 10 and s = testState
             and input = "[1]"]
  by (simp add: Call_def CallFrame_def CallCode_def CallCodeFrame_def DelegateCall_def
        DelegateCallFrame_def state_defs frame_defs config_defs test_defs)

subsection \<open>Early returns\<close>

lemma Call_depth:
  assumes "\<not> (NoRecursion (vmConfig evm) \<and> 0 < depth evm)" and "CallCreateDepth G < depth evm"
  shows "Call G evm caller addr input gas val s =
           \<lparr>ret = [], err = Some ErrDepth, caller_after = ReturnGas gas caller,
            frame = None, state = s\<rparr>"
  using assms by (simp add: Call_def CallFrame_def)

lemma CallCode_depth:
  assumes "\<not> (NoRecursion (vmConfig evm) \<and> 0 < depth evm)" and "CallCreateDepth G < depth evm"
  shows "CallCode G evm caller addr input gas val s =
           \<lparr>ret = [], err = Some ErrDepth, caller_after = ReturnGas gas caller,
            frame = None, state = s\<rparr>"
  using assms by (simp add: CallCode_def CallCodeFrame_def)

lemma DelegateCall_depth:
  assumes "\<not> (NoRecursion (vmConfig evm) \<and> 0 < depth evm)" and "CallCreateDepth G < depth evm"
  shows "DelegateCall G evm caller addr input gas s =
           \<lparr>ret = [], err = Some ErrDepth, caller_after = ReturnGas gas caller,
            frame = None, state = s\<rparr>"
  using assms by (simp add: DelegateCall_def DelegateCallFrame_def)

lemma Create_depth:
  assumes "\<not> (NoRecursion (vmConfig evm) \<and> 0 < depth evm)" and "CallCreateDepth G < depth evm"
  shows "Create G evm caller code gas val s =
           \<lparr>ret = [], err = Some ErrDepth, caller_after = ReturnGas gas caller,
            frame = None, state = s, contractAddr = 0\<rparr>"
  using assms by (simp add: Create_def CreateFrame_def)

lemma Call_at_limit:
  assumes "\<not> (NoRecursion (vmConfig evm) \<and> 0 < depth evm)" and "depth evm = CallCreateDepth G"
  shows "\<not> (frame (Call G evm caller addr input gas val s) = None
            \<and> err (Call G evm caller addr input gas val s) = Some ErrDepth)"
  using assms
  by (simp add: Call_def CallFrame_def Let_def split: prod.splits option.splits)

lemma CallCode_at_limit:
  assumes "\<not> (NoRecursion (vmConfig evm) \<and> 0 < depth evm)" and "depth evm = CallCreateDepth G"
  shows "\<not> (frame (CallCode G evm caller addr input gas val s) = None
            \<and> err (CallCode G evm caller addr input gas val s) = Some ErrDepth)"
  using assms
  by (simp add: CallCode_def CallCodeFrame_def Let_def split: prod.splits)

lemma DelegateCall_at_limit:
  assumes "\<not> (NoRecursion (vmConfig evm) \<and> 0 < depth evm)" and "depth evm = CallCreateDepth G"
  shows "frame (DelegateCall G evm caller addr input gas s) \<noteq> None"
  using assms
  by (simp add: DelegateCall_def DelegateCallFrame_def Let_def split: prod.splits)

lemma Create_at_limit:
  assumes "\<not> (NoRecursion (vmConfig evm) \<and> 0 < depth evm)" and "depth evm = CallCreateDepth G"
  shows "\<not> (frame (Create G evm caller code gas val s) = None
            \<and> err (Create G evm caller code gas val s) = Some ErrDepth)"
  using assms
  by (simp add: Create_def CreateFrame_def Let_def split: prod.splits)

lemma above_limit_untouched:
  assumes "CallCreateDepth G < depth evm"
  shows "caller_after (Call G evm caller addr input gas val s) = ReturnGas gas caller
      \<and> frame (Call G evm caller addr input gas val s) = None
      \<and> state (Call G evm caller addr input gas val s) = s"
    and "caller_after (CallCode G evm caller addr input gas val s) = ReturnGas gas caller
      \<and> frame (CallCode G evm caller addr input gas val s) = None
      \<and> state (CallCode G evm caller addr input gas val s) = s"
    and "caller_after (DelegateCall G evm caller addr input gas s) = ReturnGas gas caller
      \<and> frame (DelegateCall G evm caller addr input gas s) = None
      \<and> state (DelegateCall G evm caller addr input gas s) = s"
    and "caller_after (Create G evm caller code gas val s) = ReturnGas gas caller
      \<and> frame (Create G evm caller code gas val s) = None
      \<and> state (Create G evm caller code gas val s) = s"
  using assms
  by (simp_all add: Call_def CallFrame_def CallCode_def CallCodeFrame_def DelegateCall_def
        DelegateCallFrame_def Create_def CreateFrame_def)

text \<open>
  Claim C4. Where the no-recursion mode does not return first, an invocation of \<open>Call\<close>,
  \<open>CallCode\<close>, \<open>DelegateCall\<close> or \<open>Create\<close> at a depth above \<open>CallCreateDepth\<close> fails with
  \<open>ErrDepth\<close>, returns the whole gas to the caller, builds no frame and leaves the state
  view, with its snapshots, as it was. At a depth equal to \<open>CallCreateDepth\<close> the depth
  check passes: no entry point returns \<open>ErrDepth\<close> without having built a frame, and
  \<open>DelegateCall\<close>, which has no further check, builds its frame. Above the limit the gas
  is returned, no frame is built and the state view is untouched in every invocation,
  whichever of the two checks returns.
\<close>

theorem depth_exceeded_returns_gas_untouched_state:
  "(\<not> (NoRecursion (vmConfig evm) \<and> 0 < depth evm) \<longrightarrow> CallCreateDepth G < depth evm \<longrightarrow>
      Call G evm caller addr input gas val s =
        \<lparr>ret = [], err = Some ErrDepth, caller_after = ReturnGas gas caller,
         frame = None, state = s\<rparr>
      \<and> CallCode G evm caller addr input gas val s =
        \<lparr>ret = [], err = Some ErrDepth, caller_after = ReturnGas gas caller,
         frame = None, state = s\<rparr>
      \<and> DelegateCall G evm caller addr input gas s =
        \<lparr>ret = [], err = Some ErrDepth, caller_after = ReturnGas gas caller,
         frame = None, state = s\<rparr>
      \<and> Create G evm caller code gas val s =
        \<lparr>ret = [], err = Some ErrDepth, caller_after = ReturnGas gas caller,
         frame = None, state = s, contractAddr = 0\<rparr>)
   \<and> (\<not> (NoRecursion (vmConfig evm) \<and> 0 < depth evm) \<longrightarrow> depth evm = CallCreateDepth G \<longrightarrow>
      \<not> (frame (Call G evm caller addr input gas val s) = None
          \<and> err (Call G evm caller addr input gas val s) = Some ErrDepth)
      \<and> \<not> (frame (CallCode G evm caller addr input gas val s) = None
          \<and> err (CallCode G evm caller addr input gas val s) = Some ErrDepth)
      \<and> frame (DelegateCall G evm caller addr input gas s) \<noteq> None
      \<and> \<not> (frame (Create G evm caller code gas val s) = None
          \<and> err (Create G evm caller code gas val s) = Some ErrDepth))
   \<and> (CallCreateDepth G < depth evm \<longrightarrow>
      (caller_after (Call G evm caller addr input gas val s) = ReturnGas gas caller
       \<and> frame (Call G evm caller addr input gas val s) = None
       \<and> state (Call G evm caller addr input gas val s) = s)
      \<and> (caller_after (CallCode G evm caller addr input gas val s) = ReturnGas gas caller
       \<and> frame (CallCode G evm caller addr input gas val s) = None
       \<and> state (CallCode G evm caller addr input gas val s) = s)
      \<and> (caller_after (DelegateCall G evm caller addr input gas s) = ReturnGas gas caller
       \<and> frame (DelegateCall G evm caller addr input gas s) = None
       \<and> state (DelegateCall G evm caller addr input gas s) = s)
      \<and> (caller_after (Create G evm caller code gas val s) = ReturnGas gas caller
       \<and> frame (Create G evm caller code gas val s) = None
       \<and> state (Create G evm caller code gas val s) = s))"
proof (intro conjI impI)
qed (simp_all add: Call_depth CallCode_depth DelegateCall_depth Create_depth
       Call_at_limit CallCode_at_limit DelegateCall_at_limit Create_at_limit
       above_limit_untouched)

theorem depth_exceeded_returns_gas_untouched_state_witness:
  "Call testParams (testEVM 3000000 1025 False (returningRun [])) alice 12 [] 50000 10 testState =
     \<lparr>ret = [], err = Some ErrDepth, caller_after = alice\<lparr>HeldGas := 50000\<rparr>,
      frame = None, state = testState\<rparr>
   \<and> CallCode testParams (testEVM 3000000 1025 False (returningRun [])) alice 12 [] 50000 10 testState =
     \<lparr>ret = [], err = Some ErrDepth, caller_after = alice\<lparr>HeldGas := 50000\<rparr>,
      frame = None, state = testState\<rparr>
   \<and> DelegateCall testParams (testEVM 3000000 1025 False (returningRun [])) alice 12 [] 50000 testState =
     \<lparr>ret = [], err = Some ErrDepth, caller_after = alice\<lparr>HeldGas := 50000\<rparr>,
      frame = None, state = testState\<rparr>
   \<and> Create testParams (testEVM 3000000 1025 False (returningRun [])) alice [] 50000 10 testState =
     \<lparr>ret = [], err = Some ErrDepth, caller_after = alice\<lparr>HeldGas := 50000\<rparr>,
      frame = None, state = testState, contractAddr = 0\<rparr>
   \<and> err (Call testParams (testEVM 3000000 1024 False (returningRun [])) alice 12 [] 50000 10 testState) = None
   \<and> frame (Call testParams (testEVM 3000000 1024 False (returningRun [])) alice 12 [] 50000 10 testState) \<noteq> None
   \<and> frame (DelegateCall testParams (testEVM 3000000 1024 False (returningRun [])) alice 12 [] 50000 testState) \<noteq> None"
  using depth_exceeded_returns_gas_untouched_state
          [where evm = "testEVM 3000000 1025 False (returningRun [])" and G = testParams
             and caller = alice and addr = 12 and input = "[]" and gas = 50000 and val = 10
             and s = testState and code = "[]"]
        depth_exceeded_returns_gas_untouched_state
          [where evm = "testEVM 3000000 1024 False (returningRun [])" and G = testParams
             and caller = alice and addr = 12 and input = "[]" and gas = 50000 and val = 10
             and s = testState and code = "[]"]
  by (simp add: Call_def CallFrame_def CallCode_def CallCodeFrame_def DelegateCall_def
        DelegateCallFrame_def Create_def CreateFrame_def state_defs frame_defs config_defs
        test_defs)

subsection \<open>The transfer-permission check and absent accounts in Call\<close>

lemma Call_insufficient_balance:
  assumes "\<not> (NoRecursion (vmConfig evm) \<and> 0 < depth evm)" and "depth evm \<le> CallCreateDepth G"
    and "\<not> CanTransfer (Ctx evm) s (Address caller) val"
  shows "Call G evm caller addr input gas val s =
           \<lparr>ret = [], err = Some ErrInsufficientBalance, caller_after = ReturnGas gas caller,
            frame = None, state = s\<rparr>"
  using assms by (simp add: Call_def CallFrame_def)

lemma Call_cannot_transfer_untouched:
  assumes "\<not> CanTransfer (Ctx evm) s (Address caller) val"
  shows "ret (Call G evm caller addr input gas val s) = []
    \<and> caller_after (Call G evm caller addr input gas val s) = ReturnGas gas caller
    \<and> frame (Call G evm caller addr input gas val s) = None
    \<and> state (Call G evm caller addr input gas val s) = s"
  using assms by (simp add: Call_def CallFrame_def)

lemma Call_cannot_transfer_any_target:
  assumes "\<not> CanTransfer (Ctx evm) s (Address caller) val"
  shows "Call G evm caller addr' input' gas val s = Call G evm caller addr input gas val s"
  using assms by (simp add: Call_def CallFrame_def)

text \<open>
  Claim C8. In a \<open>Call\<close> that reaches the transfer-permission predicate (neither the
  no-recursion mode nor the depth check returned first) and in which the predicate
  rejects the value, \<open>Call\<close> fails with \<open>ErrInsufficientBalance\<close>, returns the whole gas to
  the caller and builds no frame; the state view is the one it was given, with no snapshot
  added, no account created and no balance changed. Whenever the predicate rejects the
  value, whichever check returns, the state view is untouched and the gas returned, and
  the result is the same for every target address and input: the target is never looked
  at.
\<close>

theorem rejected_transfer_fails_without_mutation:
  "(\<not> (NoRecursion (vmConfig evm) \<and> 0 < depth evm) \<longrightarrow> depth evm \<le> CallCreateDepth G \<longrightarrow>
      \<not> CanTransfer (Ctx evm) s (Address caller) val \<longrightarrow>
      Call G evm caller addr input gas val s =
        \<lparr>ret = [], err = Some ErrInsufficientBalance, caller_after = ReturnGas gas caller,
         frame = None, state = s\<rparr>)
   \<and> (\<not> CanTransfer (Ctx evm) s (Address caller) val \<longrightarrow>
      ret (Call G evm caller addr input gas val s) = []
      \<and> caller_after (Call G evm caller addr input gas val s) = ReturnGas gas caller
      \<and> frame (Call G evm caller addr input gas val s) = None
      \<and> state (Call G evm caller addr input gas val s) = s
      \<and> Call G evm caller addr' input' gas val s = Call G evm caller addr input gas val s)"
  using Call_insufficient_balance [of evm G s caller val addr input gas]
    Call_cannot_transfer_untouched [of evm s caller val G addr input gas]
    Call_cannot_transfer_any_target [of evm s caller val G addr' input' gas addr input]
  by blast

theorem rejected_transfer_fails_without_mutation_witness:
  "\<not> CanTransfer (Ctx (testEVM 3000000 0 False faultingRun)) testState (Address alice) 150
   \<and> GetBalance testState (Address alice) = 100
   \<and> Call testParams (testEVM 3000000 0 False faultingRun) alice 12 [] 50000 150 testState =
       \<lparr>ret = [], err = Some ErrInsufficientBalance, caller_after = alice\<lparr>HeldGas := 50000\<rparr>,
        frame = None, state = testState\<rparr>
   \<and> \<not> Exist (state (Call testParams (testEVM 3000000 0 False faultingRun) alice 12 []
                        50000 150 testState)) 12
   \<and> Call testParams (testEVM 3000000 0 False faultingRun) alice 13 [1] 50000 150 testState =
       Call testParams (testEVM 3000000 0 False faultingRun) alice 12 [] 50000 150 testState"
  using rejected_transfer_fails_without_mutation
          [where evm = "testEVM 3000000 0 False faultingRun" and G = testParams
             and s = testState and caller = alice and val = 150 and addr = 12
             and input = "[]" and gas = 50000 and addr' = 13 and input' = "[1]"]
  by (simp add: state_defs frame_defs test_defs)

lemma Call_empty_account_noop:
  assumes "\<not> (NoRecursion (vmConfig evm) \<and> 0 < depth evm)" and "depth evm \<le> CallCreateDepth G"
    and "CanTransfer (Ctx evm) s (Address caller) val"
    and "\<not> Exist s addr"
    and "\<not> PrecompiledContracts G addr"
    and "IsEIP158 (chainConfig evm) (BlockNumber (Ctx evm))"
    and "val = 0"
  shows "Call G evm caller addr input gas val s =
           \<lparr>ret = [], err = None, caller_after = ReturnGas gas caller,
            frame = None, state = snd (Snapshot s)\<rparr>"
  using assms by (simp add: Call_def CallFrame_def Snapshot_def Exist_def)

lemma CallFrame_creates_account:
  assumes "\<not> (NoRecursion (vmConfig evm) \<and> 0 < depth evm)" and "depth evm \<le> CallCreateDepth G"
    and "CanTransfer (Ctx evm) s (Address caller) val"
    and "\<not> Exist s addr"
    and "\<not> (\<not> PrecompiledContracts G addr
            \<and> IsEIP158 (chainConfig evm) (BlockNumber (Ctx evm)) \<and> val = 0)"
  shows "CallFrame G evm caller addr gas val s =
           (let s2 = snd (CreateAccount addr (snd (Snapshot s)));
                s3 = Transfer (Ctx evm) s2 (Address caller) addr val
            in Inr (fst (Snapshot s),
                    SetCallCode addr (GetCodeHash G s3 addr) (GetCode s3 addr)
                      (NewContract caller addr val gas),
                    s3))"
  using assms
  by (auto simp add: CallFrame_def Let_def Snapshot_def Exist_def CreateAccount_def)

lemma CreateAccount_exists:
  "Exist (snd (CreateAccount addr s)) addr
   \<and> accounts (snd (CreateAccount addr s)) addr = Some emptyAccount"
  by (simp add: CreateAccount_def Exist_def)

lemma Snapshot_accounts: "accounts (snd (Snapshot s)) = accounts s"
  by (simp add: Snapshot_def)

text \<open>
  Claim C7. In a \<open>Call\<close> that passes the no-recursion, depth and transfer-permission checks
  and whose target address has no account: if the address is not precompiled, the
  empty-account rule (EIP158) is active and the value is zero, \<open>Call\<close> returns no error and
  no output, returns the whole gas to the caller, builds no frame and creates no account
  (it leaves the snapshot it took); in every other case the account is created first and
  the value transfer is applied to the state view that holds the new account, and the
  state view after the transfer is the one the interpreter is started with.
\<close>

theorem call_to_absent_account:
  "(\<not> (NoRecursion (vmConfig evm) \<and> 0 < depth evm) \<longrightarrow> depth evm \<le> CallCreateDepth G \<longrightarrow>
      CanTransfer (Ctx evm) s (Address caller) val \<longrightarrow> \<not> Exist s addr \<longrightarrow>
      \<not> PrecompiledContracts G addr \<longrightarrow> IsEIP158 (chainConfig evm) (BlockNumber (Ctx evm)) \<longrightarrow>
      val = 0 \<longrightarrow>
        Call G evm caller addr input gas val s =
          \<lparr>ret = [], err = None, caller_after = ReturnGas gas caller,
           frame = None, state = snd (Snapshot s)\<rparr>
        \<and> accounts (state (Call G evm caller addr input gas val s)) = accounts s
        \<and> \<not> Exist (state (Call G evm caller addr input gas val s)) addr)
   \<and> (\<not> (NoRecursion (vmConfig evm) \<and> 0 < depth evm) \<longrightarrow> depth evm \<le> CallCreateDepth G \<longrightarrow>
      CanTransfer (Ctx evm) s (Address caller) val \<longrightarrow> \<not> Exist s addr \<longrightarrow>
      \<not> (\<not> PrecompiledContracts G addr
          \<and> IsEIP158 (chainConfig evm) (BlockNumber (Ctx evm)) \<and> val = 0) \<longrightarrow>
        (let s2 = snd (CreateAccount addr (snd (Snapshot s)));
             s3 = Transfer (Ctx evm) s2 (Address caller) addr val
         in Exist s2 addr
            \<and> accounts s2 = (accounts s)(addr \<mapsto> emptyAccount)
            \<and> CallFrame G evm caller addr gas val s =
                Inr (fst (Snapshot s),
                     SetCallCode addr (GetCodeHash G s3 addr) (GetCode s3 addr)
                       (NewContract caller addr val gas),
                     s3)
            \<and> frame (Call G evm caller addr input gas val s) \<noteq> None))"
proof (intro conjI impI)
  assume a: "\<not> (NoRecursion (vmConfig evm) \<and> 0 < depth evm)" "depth evm \<le> CallCreateDepth G"
    "CanTransfer (Ctx evm) s (Address caller) val" "\<not> Exist s addr"
    "\<not> PrecompiledContracts G addr" "IsEIP158 (chainConfig evm) (BlockNumber (Ctx evm))"
    "val = 0"
  note out = Call_empty_account_noop [OF a, of input gas]
  show "Call G evm caller addr input gas val s =
          \<lparr>ret = [], err = None, caller_after = ReturnGas gas caller,
           frame = None, state = snd (Snapshot s)\<rparr>"
    by (rule out)
  show "accounts (state (Call G evm caller addr input gas val s)) = accounts s"
    by (simp add: out Snapshot_accounts)
  show "\<not> Exist (state (Call G evm caller addr input gas val s)) addr"
    using a(4) by (simp add: out Exist_def Snapshot_accounts)
next
  assume a: "\<not> (NoRecursion (vmConfig evm) \<and> 0 < depth evm)" "depth evm \<le> CallCreateDepth G"
    "CanTransfer (Ctx evm) s (Address caller) val" "\<not> Exist s addr"
    "\<not> (\<not> PrecompiledContracts G addr
        \<and> IsEIP158 (chainConfig evm) (BlockNumber (Ctx evm)) \<and> val = 0)"
  note fr = CallFrame_creates_account [OF a, of gas]
  have built: "frame (Call G evm caller addr input gas val s) \<noteq> None"
    by (simp add: Call_def fr Let_def)
  show "let s2 = snd (CreateAccount addr (snd (Snapshot s)));
            s3 = Transfer (Ctx evm) s2 (Address caller) addr val
        in Exist s2 addr
           \<and> accounts s2 = (accounts s)(addr \<mapsto> emptyAccount)
           \<and> CallFrame G evm caller addr gas val s =
               Inr (fst (Snapshot s),
                    SetCallCode addr (GetCodeHash G s3 addr) (GetCode s3 addr)
                      (NewContract caller addr val gas),
                    s3)
           \<and> frame (Call G evm caller addr input gas val s) \<noteq> None"
    using fr built
    by (simp add: Let_def CreateAccount_exists) (simp add: CreateAccount_def Snapshot_def)
qed

theorem call_to_absent_account_witness:
  "\<not> Exist testState 12
   \<and> CanTransfer (Ctx (testEVM 3000000 0 False (returningRun []))) testState (Address alice) 0
   \<and> Call testParams (testEVM 3000000 0 False (returningRun [])) alice 12 [] 50000 0 testState =
       \<lparr>ret = [], err = None, caller_after = alice\<lparr>HeldGas := 50000\<rparr>, frame = None,
        state = testState\<lparr>revisions := [accounts testState]\<rparr>\<rparr>
   \<and> \<not> Exist (state (Call testParams (testEVM 3000000 0 False (returningRun [])) alice 12 []
                        50000 0 testState)) 12
   \<and> CanTransfer (Ctx (testEVM 3000000 0 False (returningRun []))) testState (Address alice) 100
   \<and> err (Call testParams (testEVM 3000000 0 False (returningRun [])) alice 12 [] 50000 100
            testState) = None
   \<and> Exist (state (Call testParams (testEVM 3000000 0 False (returningRun [])) alice 12 []
                      50000 100 testState)) 12
   \<and> GetBalance (state (Call testParams (testEVM 3000000 0 False (returningRun [])) alice 12 []
                           50000 100 testState)) 12 = 100
   \<and> GetBalance (state (Call testParams (testEVM 3000000 0 False (returningRun [])) alice 12 []
                           50000 100 testState)) (Address alice) = 0"
  using call_to_absent_account
          [where evm = "testEVM 3000000 0 False (returningRun [])" and G = testParams
             and s = testState and caller = alice and val = 0 and addr = 12 and input = "[]"
             and gas = 50000]
        call_to_absent_account
          [where evm = "testEVM 3000000 0 False (returningRun [])" and G = testParams
             and s = testState and caller = alice and val = 100 and addr = 12 and input = "[]"
             and gas = 50000]
  by (simp add: Call_def CallFrame_def state_defs frame_defs config_defs test_defs)

subsection \<open>Properties of Create\<close>

text \<open>The state view in which \<open>Create\<close> takes its snapshot: the caller's nonce has
  already been incremented.\<close>

lemma CreateFrame_snapshot:
  assumes "CreateFrame G evm caller code gas val s = Inr (snapshot, a, c, s1)"
  shows "snapshot = fst (Snapshot (SetNonce (Address caller) (GetNonce s (Address caller) + 1) s))
    \<and> a = CreateAddress G (Address caller) (GetNonce s (Address caller))"
  using assms
  by (auto simp add: CreateFrame_def Let_def split: if_splits prod.splits)

lemma Create_oversized:
  assumes f: "CreateFrame G evm caller code gas val s = Inr (snapshot, a, c, s1)"
    and big: "MaxCodeSize G < int (length (r_ret (interpreter evm c [] s1)))"
  shows "Create G evm caller code gas val s =
           \<lparr>ret = [],
            err = Some (case r_err (interpreter evm c [] s1) of
                          None \<Rightarrow> ErrCodeStoreOutOfGas | Some e \<Rightarrow> e),
            caller_after = caller, frame = Some (c\<lparr>Gas := 0\<rparr>),
            state = RevertToSnapshot snapshot (r_state (interpreter evm c [] s1)),
            contractAddr = a\<rparr>"
  using big
  by (cases "r_err (interpreter evm c [] s1)")
     (simp_all add: Create_def f Let_def UseGas_def Finalise_def ReturnGas_zero)

lemma Create_fault:
  assumes f: "CreateFrame G evm caller code gas val s = Inr (snapshot, a, c, s1)"
    and e: "r_err (interpreter evm c [] s1) = Some e"
    and rv: "IsHomestead (chainConfig evm) (BlockNumber (Ctx evm)) \<or> e \<noteq> ErrCodeStoreOutOfGas"
  shows "Create G evm caller code gas val s =
           \<lparr>ret = [], err = Some e, caller_after = caller, frame = Some (c\<lparr>Gas := 0\<rparr>),
            state = RevertToSnapshot snapshot (r_state (interpreter evm c [] s1)),
            contractAddr = a\<rparr>"
  using e rv
  by (auto simp add: Create_def f Let_def UseGas_def Finalise_def ReturnGas_zero)

lemma Create_store_out_of_gas_reverted:
  assumes f: "CreateFrame G evm caller code gas val s = Inr (snapshot, a, c, s1)"
    and ok: "r_err (interpreter evm c [] s1) = None"
    and fits: "int (length (r_ret (interpreter evm c [] s1))) \<le> MaxCodeSize G"
    and short: "r_gas (interpreter evm c [] s1)
                  < int (length (r_ret (interpreter evm c [] s1))) * CreateDataGas G"
    and h: "IsHomestead (chainConfig evm) (BlockNumber (Ctx evm))"
  shows "Create G evm caller code gas val s =
           \<lparr>ret = [], err = Some ErrCodeStoreOutOfGas, caller_after = caller,
            frame = Some (c\<lparr>Gas := 0\<rparr>),
            state = RevertToSnapshot snapshot (r_state (interpreter evm c [] s1)),
            contractAddr = a\<rparr>"
  using ok fits short h
  by (simp add: Create_def f Let_def UseGas_def Finalise_def ReturnGas_zero)

lemma Create_store_out_of_gas_tolerated:
  assumes f: "CreateFrame G evm caller code gas val s = Inr (snapshot, a, c, s1)"
    and ok: "r_err (interpreter evm c [] s1) = None"
    and fits: "int (length (r_ret (interpreter evm c [] s1))) \<le> MaxCodeSize G"
    and short: "r_gas (interpreter evm c [] s1)
                  < int (length (r_ret (interpreter evm c [] s1))) * CreateDataGas G"
    and h: "\<not> IsHomestead (chainConfig evm) (BlockNumber (Ctx evm))"
  shows "Create G evm caller code gas val s =
           \<lparr>ret = [], err = Some ErrCodeStoreOutOfGas,
            caller_after = ReturnGas (r_gas (interpreter evm c [] s1)) caller,
            frame = Some (c\<lparr>Gas := r_gas (interpreter evm c [] s1)\<rparr>),
            state = r_state (interpreter evm c [] s1),
            contractAddr = a\<rparr>"
  using ok fits short h
  by (simp add: Create_def f Let_def UseGas_def Finalise_def)

lemma Create_success:
  assumes f: "CreateFrame G evm caller code gas val s = Inr (snapshot, a, c, s1)"
    and ok: "r_err (interpreter evm c [] s1) = None"
    and fits: "int (length (r_ret (interpreter evm c [] s1))) \<le> MaxCodeSize G"
    and paid: "int (length (r_ret (interpreter evm c [] s1))) * CreateDataGas G
                 \<le> r_gas (interpreter evm c [] s1)"
  shows "Create G evm caller code gas val s =
           \<lparr>ret = r_ret (interpreter evm c [] s1), err = None,
            caller_after =
              ReturnGas (r_gas (interpreter evm c [] s1)
                          - int (length (r_ret (interpreter evm c [] s1))) * CreateDataGas G)
                caller,
            frame = Some (c\<lparr>Gas := r_gas (interpreter evm c [] s1)
                          - int (length (r_ret (interpreter evm c [] s1))) * CreateDataGas G\<rparr>),
            state = SetCode a (r_ret (interpreter evm c [] s1))
                      (r_state (interpreter evm c [] s1)),
            contractAddr = a\<rparr>"
  using ok fits paid
  by (simp add: Create_def f Let_def UseGas_def Finalise_def)

lemma Create_error_no_output:
  "err (Create G evm caller code gas val s) \<noteq> None \<Longrightarrow> ret (Create G evm caller code gas val s) = []"
  by (auto simp add: Create_def CreateFrame_def Let_def split: if_splits prod.splits sum.splits)

text \<open>
  Once \<open>Create\<close> has passed its checks, the address it returns is \<open>CreateAddress\<close> applied
  to the caller's address and to the nonce read before the increment, whatever the
  interpreter does. How \<open>CreateAddress\<close> maps nonces to addresses is not decided here: the
  function belongs to \<^verbatim>\<open>crypto\<close> and is a parameter.
\<close>

lemma Create_address_from_caller_and_nonce:
  assumes "CreateFrame G evm caller code gas val s = Inr (snapshot, a, c, s1)"
  shows "contractAddr (Create G evm caller code gas val s)
           = CreateAddress G (Address caller) (GetNonce s (Address caller))"
proof -
  have "contractAddr (Create G evm caller code gas val s) = a"
    by (simp add: Create_def assms Let_def split: prod.splits)
  then show ?thesis
    using CreateFrame_snapshot [OF assms] by simp
qed

lemma GetCode_SetNonce: "GetCode (SetNonce a n s) x = GetCode s x"
  by (simp add: GetCode_def SetNonce_def getOrNew_def emptyAccount_def split: option.splits)

lemma GetNonce_SetNonce: "GetNonce (SetNonce a n s) a = n"
  by (simp add: GetNonce_def SetNonce_def)

lemma accounts_SetNonce_other: "x \<noteq> a \<Longrightarrow> accounts (SetNonce a n s) x = accounts s x"
  by (simp add: SetNonce_def)

lemma revisions_SetNonce: "revisions (SetNonce a n s) = revisions s"
  by (simp add: SetNonce_def)

lemma GetCode_SetCode: "GetCode (SetCode a code s) a = code"
  by (simp add: GetCode_def SetCode_def)


text \<open>
  Claim C5. In every \<open>Create\<close> that reaches the interpreter, for any chain configuration
  and block number: when the init code returns more than \<open>MaxCodeSize\<close> bytes, \<open>Create\<close>
  returns no output, an error (the interpreter's, or \<open>ErrCodeStoreOutOfGas\<close> when the
  interpreter reported none) and the address derived from the caller's address and the
  nonce it had before the call; the frame is left with no gas and nothing is returned to
  the caller; the state view is reverted to the snapshot, and when the transfer function
  left the snapshots alone and the interpreter kept the snapshots that were live in the
  state view it was started with, it is the state view in which the snapshot was taken,
  so that every address has the code it had before the call.
\<close>

theorem oversized_code_is_fully_reverted:
  "\<forall>snapshot a c s1. CreateFrame G evm caller code gas val s = Inr (snapshot, a, c, s1) \<longrightarrow>
     (let r = interpreter evm c [] s1; out = Create G evm caller code gas val s;
          s0 = SetNonce (Address caller) (GetNonce s (Address caller) + 1) s
      in MaxCodeSize G < int (length (r_ret r)) \<longrightarrow>
           ret out = []
           \<and> err out = Some (case r_err r of None \<Rightarrow> ErrCodeStoreOutOfGas | Some e \<Rightarrow> e)
           \<and> contractAddr out = CreateAddress G (Address caller) (GetNonce s (Address caller))
           \<and> frame out = Some (c\<lparr>Gas := 0\<rparr>) \<and> caller_after out = caller
           \<and> snapshot = fst (Snapshot s0)
           \<and> state out = RevertToSnapshot snapshot (r_state r)
           \<and> (transfer_keeps_snapshots (Transfer (Ctx evm)) \<longrightarrow>
                keeps_snapshots s1 (r_state r) \<longrightarrow>
                state out = s0 \<and> (\<forall>x. GetCode (state out) x = GetCode s x)))"
proof (intro allI impI)
  fix snapshot a c s1
  assume f: "CreateFrame G evm caller code gas val s = Inr (snapshot, a, c, s1)"
  let ?r = "interpreter evm c [] s1"
  let ?s0 = "SetNonce (Address caller) (GetNonce s (Address caller) + 1) s"
  note sn = CreateFrame_snapshot [OF f]
  have kept: "RevertToSnapshot snapshot (r_state ?r) = ?s0"
    if "transfer_keeps_snapshots (Transfer (Ctx evm))" and "keeps_snapshots s1 (r_state ?r)"
    using CreateFrame_entry [OF that(1) f] revert_to_live_snapshot [OF _ that(2), of ?s0]
    by (simp add: revisions_SetNonce)
  show "let r = interpreter evm c [] s1; out = Create G evm caller code gas val s;
            s0 = SetNonce (Address caller) (GetNonce s (Address caller) + 1) s
        in MaxCodeSize G < int (length (r_ret r)) \<longrightarrow>
             ret out = []
             \<and> err out = Some (case r_err r of None \<Rightarrow> ErrCodeStoreOutOfGas | Some e \<Rightarrow> e)
             \<and> contractAddr out = CreateAddress G (Address caller) (GetNonce s (Address caller))
             \<and> frame out = Some (c\<lparr>Gas := 0\<rparr>) \<and> caller_after out = caller
             \<and> snapshot = fst (Snapshot s0)
             \<and> state out = RevertToSnapshot snapshot (r_state r)
             \<and> (transfer_keeps_snapshots (Transfer (Ctx evm)) \<longrightarrow>
                keeps_snapshots s1 (r_state r) \<longrightarrow>
                  state out = s0 \<and> (\<forall>x. GetCode (state out) x = GetCode s x))"
    unfolding Let_def
  proof (intro impI)
    assume big: "MaxCodeSize G < int (length (r_ret ?r))"
    note out = Create_oversized [OF f big]
    from sn kept show "ret (Create G evm caller code gas val s) = []
      \<and> err (Create G evm caller code gas val s)
          = Some (case r_err ?r of None \<Rightarrow> ErrCodeStoreOutOfGas | Some e \<Rightarrow> e)
      \<and> contractAddr (Create G evm caller code gas val s)
          = CreateAddress G (Address caller) (GetNonce s (Address caller))
      \<and> frame (Create G evm caller code gas val s) = Some (c\<lparr>Gas := 0\<rparr>)
      \<and> caller_after (Create G evm caller code gas val s) = caller
      \<and> snapshot = fst (Snapshot ?s0)
      \<and> state (Create G evm caller code gas val s) = RevertToSnapshot snapshot (r_state ?r)
      \<and> (transfer_keeps_snapshots (Transfer (Ctx evm)) \<longrightarrow>
           keeps_snapshots s1 (r_state ?r) \<longrightarrow>
           state (Create G evm caller code gas val s) = ?s0
           \<and> (\<forall>x. GetCode (state (Create G evm caller code gas val s)) x = GetCode s x))"
      by (simp add: out GetCode_SetNonce)
  qed
qed

theorem oversized_code_is_fully_reverted_witness:
  "\<not> isl (CreateFrame testParams (testEVM 3000000 0 False (returningRun (replicate 24577 0)))
            alice [] 50000 10 testState)
   \<and> Create testParams (testEVM 3000000 0 False (returningRun (replicate 24577 0)))
       alice [] 50000 10 testState =
       \<lparr>ret = [], err = Some ErrCodeStoreOutOfGas, caller_after = alice,
        frame = Some \<lparr>CallerAddress = 10, self = 18, Code = [], CodeHash = 0,
                      CodeAddr = Some 18, Val = 10, Gas = 0, delegate = False\<rparr>,
        state = SetNonce 10 8 testState, contractAddr = 18\<rparr>
   \<and> Create testParams (testEVM 1000000 0 False (returningRun (replicate 24577 0)))
       alice [] 50000 10 testState =
       \<lparr>ret = [], err = Some ErrCodeStoreOutOfGas, caller_after = alice,
        frame = Some \<lparr>CallerAddress = 10, self = 18, Code = [], CodeHash = 0,
                      CodeAddr = Some 18, Val = 10, Gas = 0, delegate = False\<rparr>,
        state = SetNonce 10 8 testState, contractAddr = 18\<rparr>
   \<and> MaxCodeSize testParams < int (length (replicate 24577 (0 :: 8 word)))
   \<and> transfer_keeps_snapshots (Transfer (Ctx (testEVM 3000000 0 False (returningRun (replicate 24577 0)))))
   \<and> keeps_snapshots
        (snd (snd (snd (projr (CreateFrame testParams (testEVM 3000000 0 False (returningRun (replicate 24577 0)))
              alice [] 50000 10 testState)))))
        (r_state (returningRun (replicate 24577 0)
           (fst (snd (snd (projr (CreateFrame testParams (testEVM 3000000 0 False (returningRun (replicate 24577 0)))
              alice [] 50000 10 testState)))))
           []
           (snd (snd (snd (projr (CreateFrame testParams (testEVM 3000000 0 False (returningRun (replicate 24577 0)))
              alice [] 50000 10 testState)))))))
   \<and> transfer_keeps_snapshots (Transfer (Ctx (testEVM 1000000 0 False (returningRun (replicate 24577 0)))))
   \<and> keeps_snapshots
        (snd (snd (snd (projr (CreateFrame testParams (testEVM 1000000 0 False (returningRun (replicate 24577 0)))
              alice [] 50000 10 testState)))))
        (r_state (returningRun (replicate 24577 0)
           (fst (snd (snd (projr (CreateFrame testParams (testEVM 1000000 0 False (returningRun (replicate 24577 0)))
              alice [] 50000 10 testState)))))
           []
           (snd (snd (snd (projr (CreateFrame testParams (testEVM 1000000 0 False (returningRun (replicate 24577 0)))
              alice [] 50000 10 testState)))))))
   \<and> \<not> Exist (SetNonce 10 8 testState) 18 \<and> GetCode (SetNonce 10 8 testState) 18 = []"
  using oversized_code_is_fully_reverted
          [where G = testParams and evm = "testEVM 3000000 0 False (returningRun (replicate 24577 0))"
             and caller = alice and code = "[]" and gas = 50000 and val = 10 and s = testState]
        oversized_code_is_fully_reverted
          [where G = testParams and evm = "testEVM 1000000 0 False (returningRun (replicate 24577 0))"
             and caller = alice and code = "[]" and gas = 50000 and val = 10 and s = testState]
  by (simp add: Create_def CreateFrame_def state_defs frame_defs config_defs test_defs)


lemma IsHomestead_activation:
  "HomesteadBlock cc = Some b \<Longrightarrow> IsHomestead cc n = (b \<le> n)"
  by (simp add: IsHomestead_def isForked_def)

text \<open>
  Claim C6. In every \<open>Create\<close> that reaches the interpreter, when the init code succeeds
  with code within \<open>MaxCodeSize\<close> and the gas left in the frame does not cover the charge
  of \<open>CreateDataGas\<close> per byte: at a block number before the Homestead activation block
  \<open>Create\<close> returns \<open>ErrCodeStoreOutOfGas\<close> and no output, keeps the state view as the init
  code left it (nothing reverted, no code installed, the created account with it), and
  the frame keeps its gas, which goes back to the caller; at a block number at or after
  the activation block it returns the same error, the frame is left with no gas and the
  state view is reverted to the snapshot: when the transfer function left the snapshots
  alone and the interpreter kept the snapshots that were live in the state view it was
  started with, it is the state view in which the snapshot was taken.
\<close>

theorem code_store_out_of_gas_by_fork:
  "\<forall>snapshot a c s1. CreateFrame G evm caller code gas val s = Inr (snapshot, a, c, s1) \<longrightarrow>
     (let r = interpreter evm c [] s1; out = Create G evm caller code gas val s;
          s0 = SetNonce (Address caller) (GetNonce s (Address caller) + 1) s
      in r_err r = None \<longrightarrow> int (length (r_ret r)) \<le> MaxCodeSize G \<longrightarrow>
         r_gas r < int (length (r_ret r)) * CreateDataGas G \<longrightarrow>
         (\<forall>b. HomesteadBlock (chainConfig evm) = Some b \<longrightarrow>
            (BlockNumber (Ctx evm) < b \<longrightarrow>
               out = \<lparr>ret = [], err = Some ErrCodeStoreOutOfGas,
                      caller_after = ReturnGas (r_gas r) caller,
                      frame = Some (c\<lparr>Gas := r_gas r\<rparr>), state = r_state r,
                      contractAddr = a\<rparr>)
            \<and> (b \<le> BlockNumber (Ctx evm) \<longrightarrow>
               out = \<lparr>ret = [], err = Some ErrCodeStoreOutOfGas, caller_after = caller,
                      frame = Some (c\<lparr>Gas := 0\<rparr>),
                      state = RevertToSnapshot snapshot (r_state r), contractAddr = a\<rparr>
               \<and> snapshot = fst (Snapshot s0)
               \<and> (transfer_keeps_snapshots (Transfer (Ctx evm)) \<longrightarrow>
                keeps_snapshots s1 (r_state r) \<longrightarrow> state out = s0))))"
proof (intro allI impI)
  fix snapshot a c s1
  assume f: "CreateFrame G evm caller code gas val s = Inr (snapshot, a, c, s1)"
  let ?r = "interpreter evm c [] s1"
  let ?s0 = "SetNonce (Address caller) (GetNonce s (Address caller) + 1) s"
  note sn = CreateFrame_snapshot [OF f]
  have kept: "RevertToSnapshot snapshot (r_state ?r) = ?s0"
    if "transfer_keeps_snapshots (Transfer (Ctx evm))" and "keeps_snapshots s1 (r_state ?r)"
    using CreateFrame_entry [OF that(1) f] revert_to_live_snapshot [OF _ that(2), of ?s0]
    by (simp add: revisions_SetNonce)
  show "let r = interpreter evm c [] s1; out = Create G evm caller code gas val s;
          s0 = SetNonce (Address caller) (GetNonce s (Address caller) + 1) s
      in r_err r = None \<longrightarrow> int (length (r_ret r)) \<le> MaxCodeSize G \<longrightarrow>
         r_gas r < int (length (r_ret r)) * CreateDataGas G \<longrightarrow>
         (\<forall>b. HomesteadBlock (chainConfig evm) = Some b \<longrightarrow>
            (BlockNumber (Ctx evm) < b \<longrightarrow>
               out = \<lparr>ret = [], err = Some ErrCodeStoreOutOfGas,
                      caller_after = ReturnGas (r_gas r) caller,
                      frame = Some (c\<lparr>Gas := r_gas r\<rparr>), state = r_state r,
                      contractAddr = a\<rparr>)
            \<and> (b \<le> BlockNumber (Ctx evm) \<longrightarrow>
               out = \<lparr>ret = [], err = Some ErrCodeStoreOutOfGas, caller_after = caller,
                      frame = Some (c\<lparr>Gas := 0\<rparr>),
                      state = RevertToSnapshot snapshot (r_state r), contractAddr = a\<rparr>
               \<and> snapshot = fst (Snapshot s0)
               \<and> (transfer_keeps_snapshots (Transfer (Ctx evm)) \<longrightarrow>
                keeps_snapshots s1 (r_state r) \<longrightarrow> state out = s0)))"
    unfolding Let_def
  proof (intro impI allI conjI)
    fix b
    assume ok: "r_err ?r = None" and fits: "int (length (r_ret ?r)) \<le> MaxCodeSize G"
      and short: "r_gas ?r < int (length (r_ret ?r)) * CreateDataGas G"
      and hb: "HomesteadBlock (chainConfig evm) = Some b"
    {
      assume "BlockNumber (Ctx evm) < b"
      then have "\<not> IsHomestead (chainConfig evm) (BlockNumber (Ctx evm))"
        by (simp add: IsHomestead_activation [OF hb])
      then show "Create G evm caller code gas val s =
          \<lparr>ret = [], err = Some ErrCodeStoreOutOfGas,
           caller_after = ReturnGas (r_gas ?r) caller,
           frame = Some (c\<lparr>Gas := r_gas ?r\<rparr>), state = r_state ?r, contractAddr = a\<rparr>"
        by (rule Create_store_out_of_gas_tolerated [OF f ok fits short])
    }
    {
      assume "b \<le> BlockNumber (Ctx evm)"
      then have h: "IsHomestead (chainConfig evm) (BlockNumber (Ctx evm))"
        by (simp add: IsHomestead_activation [OF hb])
      note out = Create_store_out_of_gas_reverted [OF f ok fits short h]
      show "Create G evm caller code gas val s =
          \<lparr>ret = [], err = Some ErrCodeStoreOutOfGas, caller_after = caller,
           frame = Some (c\<lparr>Gas := 0\<rparr>),
           state = RevertToSnapshot snapshot (r_state ?r), contractAddr = a\<rparr>"
        by (rule out)
      show "snapshot = fst (Snapshot ?s0)"
        using sn by simp
      {
        assume "transfer_keeps_snapshots (Transfer (Ctx evm))"
          and "keeps_snapshots s1 (r_state ?r)"
        then show "state (Create G evm caller code gas val s) = ?s0"
          by (simp add: out kept)
      }
    }
  qed
qed

theorem code_store_out_of_gas_by_fork_witness:
  "\<not> isl (CreateFrame testParams (testEVM 1000000 0 False (returningRun [96, 0]))
            alice [] 100 10 testState)
   \<and> HomesteadBlock (chainConfig (testEVM 1000000 0 False (returningRun [96, 0]))) = Some 1150000
   \<and> int (length [96, 0 :: 8 word]) \<le> MaxCodeSize testParams
   \<and> (100 - 3 :: int) < int (length [96, 0 :: 8 word]) * CreateDataGas testParams
   \<and> transfer_keeps_snapshots (Transfer (Ctx (testEVM 3000000 0 False (returningRun [96, 0]))))
   \<and> keeps_snapshots
        (snd (snd (snd (projr (CreateFrame testParams (testEVM 3000000 0 False (returningRun [96, 0]))
              alice [] 100 10 testState)))))
        (r_state (returningRun [96, 0]
           (fst (snd (snd (projr (CreateFrame testParams (testEVM 3000000 0 False (returningRun [96, 0]))
              alice [] 100 10 testState)))))
           []
           (snd (snd (snd (projr (CreateFrame testParams (testEVM 3000000 0 False (returningRun [96, 0]))
              alice [] 100 10 testState)))))))
   \<and> err (Create testParams (testEVM 1000000 0 False (returningRun [96, 0]))
            alice [] 100 10 testState) = Some ErrCodeStoreOutOfGas
   \<and> ret (Create testParams (testEVM 1000000 0 False (returningRun [96, 0]))
            alice [] 100 10 testState) = []
   \<and> caller_after (Create testParams (testEVM 1000000 0 False (returningRun [96, 0]))
            alice [] 100 10 testState) = alice\<lparr>HeldGas := 97\<rparr>
   \<and> Exist (state (Create testParams (testEVM 1000000 0 False (returningRun [96, 0]))
            alice [] 100 10 testState)) 18
   \<and> GetCode (state (Create testParams (testEVM 1000000 0 False (returningRun [96, 0]))
            alice [] 100 10 testState)) 18 = []
   \<and> GetBalance (state (Create testParams (testEVM 1000000 0 False (returningRun [96, 0]))
            alice [] 100 10 testState)) 18 = 10
   \<and> Create testParams (testEVM 3000000 0 False (returningRun [96, 0])) alice [] 100 10 testState =
       \<lparr>ret = [], err = Some ErrCodeStoreOutOfGas, caller_after = alice,
        frame = Some \<lparr>CallerAddress = 10, self = 18, Code = [], CodeHash = 0,
                      CodeAddr = Some 18, Val = 10, Gas = 0, delegate = False\<rparr>,
        state = SetNonce 10 8 testState, contractAddr = 18\<rparr>
   \<and> \<not> Exist (SetNonce 10 8 testState) 18"
  using code_store_out_of_gas_by_fork
          [where G = testParams and evm = "testEVM 1000000 0 False (returningRun [96, 0])"
             and caller = alice and code = "[]" and gas = 100 and val = 10 and s = testState]
        code_store_out_of_gas_by_fork
          [where G = testParams and evm = "testEVM 3000000 0 False (returningRun [96, 0])"
             and caller = alice and code = "[]" and gas = 100 and val = 10 and s = testState]
  by (simp add: Create_def CreateFrame_def state_defs frame_defs config_defs test_defs)


lemma Create_full_revert:
  assumes f: "CreateFrame G evm caller code gas val s = Inr (snapshot, a, c, s1)"
    and rv: "MaxCodeSize G < int (length (r_ret (interpreter evm c [] s1)))
       \<or> (\<exists>e. r_err (interpreter evm c [] s1) = Some e
              \<and> (IsHomestead (chainConfig evm) (BlockNumber (Ctx evm))
                   \<or> e \<noteq> ErrCodeStoreOutOfGas))
       \<or> (r_err (interpreter evm c [] s1) = None
           \<and> r_gas (interpreter evm c [] s1)
                < int (length (r_ret (interpreter evm c [] s1))) * CreateDataGas G
           \<and> IsHomestead (chainConfig evm) (BlockNumber (Ctx evm)))"
  shows "err (Create G evm caller code gas val s) \<noteq> None
    \<and> state (Create G evm caller code gas val s)
        = RevertToSnapshot snapshot (r_state (interpreter evm c [] s1))"
proof (cases "MaxCodeSize G < int (length (r_ret (interpreter evm c [] s1)))")
  case True
  show ?thesis
    by (simp add: Create_oversized [OF f True])
next
  case False
  then have fits: "int (length (r_ret (interpreter evm c [] s1))) \<le> MaxCodeSize G"
    by simp
  from rv False consider
    (fault) e where "r_err (interpreter evm c [] s1) = Some e"
      "IsHomestead (chainConfig evm) (BlockNumber (Ctx evm)) \<or> e \<noteq> ErrCodeStoreOutOfGas"
    | (store) "r_err (interpreter evm c [] s1) = None"
      "r_gas (interpreter evm c [] s1)
         < int (length (r_ret (interpreter evm c [] s1))) * CreateDataGas G"
      "IsHomestead (chainConfig evm) (BlockNumber (Ctx evm))"
    by blast
  then show ?thesis
  proof cases
    case fault
    show ?thesis
      by (simp add: Create_fault [OF f fault])
  next
    case store
    show ?thesis
      by (simp add: Create_store_out_of_gas_reverted [OF f store(1) fits store(2) store(3)])
  qed
qed

text \<open>
  Claim C1, as amended. \<open>Create\<close> increments and stores the caller's nonce before it takes
  its snapshot, so the increment is not part of what a revert undoes. In every \<open>Create\<close>
  that reaches the interpreter and then meets a full-revert condition (oversized code; an
  interpreter error other than a tolerated \<open>ErrCodeStoreOutOfGas\<close>; an unpaid code-store
  charge from Homestead on), an error is returned and the state view is reverted to the
  snapshot; when the transfer function left the snapshots alone and the interpreter kept
  the snapshots that were live in the state view it was started with, the result is the
  state view the call started with, except that the caller's nonce is one higher: every
  other account and the list of snapshots are as before the call.
\<close>

theorem failed_create_keeps_nonce_increment:
  "\<forall>snapshot a c s1. CreateFrame G evm caller code gas val s = Inr (snapshot, a, c, s1) \<longrightarrow>
     (let r = interpreter evm c [] s1; out = Create G evm caller code gas val s;
          s0 = SetNonce (Address caller) (GetNonce s (Address caller) + 1) s
      in (MaxCodeSize G < int (length (r_ret r))
          \<or> (\<exists>e. r_err r = Some e
                 \<and> (IsHomestead (chainConfig evm) (BlockNumber (Ctx evm))
                      \<or> e \<noteq> ErrCodeStoreOutOfGas))
          \<or> (r_err r = None \<and> r_gas r < int (length (r_ret r)) * CreateDataGas G
              \<and> IsHomestead (chainConfig evm) (BlockNumber (Ctx evm)))) \<longrightarrow>
         err out \<noteq> None
         \<and> snapshot = fst (Snapshot s0)
         \<and> state out = RevertToSnapshot snapshot (r_state r)
         \<and> (transfer_keeps_snapshots (Transfer (Ctx evm)) \<longrightarrow>
                keeps_snapshots s1 (r_state r) \<longrightarrow>
              state out = s0
              \<and> GetNonce (state out) (Address caller) = GetNonce s (Address caller) + 1
              \<and> (\<forall>x. x \<noteq> Address caller \<longrightarrow> accounts (state out) x = accounts s x)
              \<and> revisions (state out) = revisions s))"
proof (intro allI impI)
  fix snapshot a c s1
  assume f: "CreateFrame G evm caller code gas val s = Inr (snapshot, a, c, s1)"
  let ?r = "interpreter evm c [] s1"
  let ?s0 = "SetNonce (Address caller) (GetNonce s (Address caller) + 1) s"
  note sn = CreateFrame_snapshot [OF f]
  have kept: "RevertToSnapshot snapshot (r_state ?r) = ?s0"
    if "transfer_keeps_snapshots (Transfer (Ctx evm))" and "keeps_snapshots s1 (r_state ?r)"
    using CreateFrame_entry [OF that(1) f] revert_to_live_snapshot [OF _ that(2), of ?s0]
    by (simp add: revisions_SetNonce)
  show "let r = interpreter evm c [] s1; out = Create G evm caller code gas val s;
          s0 = SetNonce (Address caller) (GetNonce s (Address caller) + 1) s
      in (MaxCodeSize G < int (length (r_ret r))
          \<or> (\<exists>e. r_err r = Some e
                 \<and> (IsHomestead (chainConfig evm) (BlockNumber (Ctx evm))
                      \<or> e \<noteq> ErrCodeStoreOutOfGas))
          \<or> (r_err r = None \<and> r_gas r < int (length (r_ret r)) * CreateDataGas G
              \<and> IsHomestead (chainConfig evm) (BlockNumber (Ctx evm)))) \<longrightarrow>
         err out \<noteq> None
         \<and> snapshot = fst (Snapshot s0)
         \<and> state out = RevertToSnapshot snapshot (r_state r)
         \<and> (transfer_keeps_snapshots (Transfer (Ctx evm)) \<longrightarrow>
                keeps_snapshots s1 (r_state r) \<longrightarrow>
              state out = s0
              \<and> GetNonce (state out) (Address caller) = GetNonce s (Address caller) + 1
              \<and> (\<forall>x. x \<noteq> Address caller \<longrightarrow> accounts (state out) x = accounts s x)
              \<and> revisions (state out) = revisions s)"
    unfolding Let_def
  proof (intro impI)
    assume rv: "MaxCodeSize G < int (length (r_ret ?r))
       \<or> (\<exists>e. r_err ?r = Some e
              \<and> (IsHomestead (chainConfig evm) (BlockNumber (Ctx evm))
                   \<or> e \<noteq> ErrCodeStoreOutOfGas))
       \<or> (r_err ?r = None \<and> r_gas ?r < int (length (r_ret ?r)) * CreateDataGas G
           \<and> IsHomestead (chainConfig evm) (BlockNumber (Ctx evm)))"
    note out = Create_full_revert [OF f rv]
    from out sn kept show "err (Create G evm caller code gas val s) \<noteq> None
      \<and> snapshot = fst (Snapshot ?s0)
      \<and> state (Create G evm caller code gas val s) = RevertToSnapshot snapshot (r_state ?r)
      \<and> (transfer_keeps_snapshots (Transfer (Ctx evm)) \<longrightarrow>
           keeps_snapshots s1 (r_state ?r) \<longrightarrow>
           state (Create G evm caller code gas val s) = ?s0
           \<and> GetNonce (state (Create G evm caller code gas val s)) (Address caller)
               = GetNonce s (Address caller) + 1
           \<and> (\<forall>x. x \<noteq> Address caller \<longrightarrow>
                 accounts (state (Create G evm caller code gas val s)) x = accounts s x)
           \<and> revisions (state (Create G evm caller code gas val s)) = revisions s)"
      by (simp add: GetNonce_SetNonce accounts_SetNonce_other revisions_SetNonce)
  qed
qed

theorem failed_create_keeps_nonce_increment_witness:
  "\<not> isl (CreateFrame testParams (testEVM 3000000 0 False faultingRun) alice [] 50000 10 testState)
   \<and> r_err (faultingRun
        (fst (snd (snd (projr (CreateFrame testParams (testEVM 3000000 0 False faultingRun)
                                 alice [] 50000 10 testState)))))
        []
        (snd (snd (snd (projr (CreateFrame testParams (testEVM 3000000 0 False faultingRun)
                                 alice [] 50000 10 testState))))))
       = Some (ExecutionFault ''invalid opcode'')
   \<and> IsHomestead (chainConfig (testEVM 3000000 0 False faultingRun))
        (BlockNumber (Ctx (testEVM 3000000 0 False faultingRun)))
   \<and> transfer_keeps_snapshots (Transfer (Ctx (testEVM 3000000 0 False faultingRun)))
   \<and> keeps_snapshots
        (snd (snd (snd (projr (CreateFrame testParams (testEVM 3000000 0 False faultingRun)
                                 alice [] 50000 10 testState)))))
        (r_state (faultingRun
           (fst (snd (snd (projr (CreateFrame testParams (testEVM 3000000 0 False faultingRun)
                                    alice [] 50000 10 testState)))))
           []
           (snd (snd (snd (projr (CreateFrame testParams (testEVM 3000000 0 False faultingRun)
                                    alice [] 50000 10 testState)))))))
   \<and> Create testParams (testEVM 3000000 0 False faultingRun) alice [] 50000 10 testState =
       \<lparr>ret = [], err = Some (ExecutionFault ''invalid opcode''), caller_after = alice,
        frame = Some \<lparr>CallerAddress = 10, self = 18, Code = [], CodeHash = 0,
                      CodeAddr = Some 18, Val = 10, Gas = 0, delegate = False\<rparr>,
        state = SetNonce 10 8 testState, contractAddr = 18\<rparr>
   \<and> GetNonce (SetNonce 10 8 testState) 10 = 8
   \<and> GetBalance (SetNonce 10 8 testState) 10 = 100"
  using failed_create_keeps_nonce_increment
          [where G = testParams and evm = "testEVM 3000000 0 False faultingRun"
             and caller = alice and code = "[]" and gas = 50000 and val = 10 and s = testState]
  by (simp add: Create_def CreateFrame_def state_defs frame_defs config_defs test_defs)

theorem create_nonce_not_restored_counterexample:
  "err (Create testParams (testEVM 3000000 0 False faultingRun) alice [] 50000 10 testState)
     = Some (ExecutionFault ''invalid opcode'')
   \<and> frame (Create testParams (testEVM 3000000 0 False faultingRun) alice [] 50000 10 testState)
     = Some \<lparr>CallerAddress = 10, self = 18, Code = [], CodeHash = 0,
             CodeAddr = Some 18, Val = 10, Gas = 0, delegate = False\<rparr>
   \<and> \<not> Exist (state (Create testParams (testEVM 3000000 0 False faultingRun) alice []
                        50000 10 testState)) 18
   \<and> GetBalance (state (Create testParams (testEVM 3000000 0 False faultingRun) alice []
                           50000 10 testState)) (Address alice) = 100
   \<and> GetNonce testState (Address alice) = 7
   \<and> GetNonce (state (Create testParams (testEVM 3000000 0 False faultingRun) alice []
                         50000 10 testState)) (Address alice) = 8"
  by (simp add: Create_def CreateFrame_def state_defs frame_defs config_defs test_defs)

text \<open>
  Claim C2, as amended. In every \<open>Create\<close> that reaches the interpreter and succeeds (the
  interpreter reports no error, the code is within \<open>MaxCodeSize\<close> and the frame's gas
  covers the code-store charge), \<open>Create\<close> returns no error and returns the interpreter's
  output unchanged: the very bytes it has installed as the code of the new address. The
  output is empty whenever \<open>Create\<close> returns an error.
\<close>

theorem successful_create_returns_installed_code:
  "(\<forall>snapshot a c s1. CreateFrame G evm caller code gas val s = Inr (snapshot, a, c, s1) \<longrightarrow>
      (let r = interpreter evm c [] s1; out = Create G evm caller code gas val s
       in r_err r = None \<longrightarrow> int (length (r_ret r)) \<le> MaxCodeSize G \<longrightarrow>
          int (length (r_ret r)) * CreateDataGas G \<le> r_gas r \<longrightarrow>
            err out = None \<and> ret out = r_ret r \<and> contractAddr out = a
            \<and> state out = SetCode a (r_ret r) (r_state r)
            \<and> GetCode (state out) (contractAddr out) = ret out))
   \<and> (err (Create G evm caller code gas val s) \<noteq> None \<longrightarrow>
        ret (Create G evm caller code gas val s) = [])"
proof (intro conjI allI impI)
  fix snapshot a c s1
  assume f: "CreateFrame G evm caller code gas val s = Inr (snapshot, a, c, s1)"
  let ?r = "interpreter evm c [] s1"
  show "let r = interpreter evm c [] s1; out = Create G evm caller code gas val s
       in r_err r = None \<longrightarrow> int (length (r_ret r)) \<le> MaxCodeSize G \<longrightarrow>
          int (length (r_ret r)) * CreateDataGas G \<le> r_gas r \<longrightarrow>
            err out = None \<and> ret out = r_ret r \<and> contractAddr out = a
            \<and> state out = SetCode a (r_ret r) (r_state r)
            \<and> GetCode (state out) (contractAddr out) = ret out"
    unfolding Let_def
  proof (intro impI)
    assume ok: "r_err ?r = None" and fits: "int (length (r_ret ?r)) \<le> MaxCodeSize G"
      and paid: "int (length (r_ret ?r)) * CreateDataGas G \<le> r_gas ?r"
    show "err (Create G evm caller code gas val s) = None
      \<and> ret (Create G evm caller code gas val s) = r_ret ?r
      \<and> contractAddr (Create G evm caller code gas val s) = a
      \<and> state (Create G evm caller code gas val s) = SetCode a (r_ret ?r) (r_state ?r)
      \<and> GetCode (state (Create G evm caller code gas val s))
          (contractAddr (Create G evm caller code gas val s))
          = ret (Create G evm caller code gas val s)"
      by (simp add: Create_success [OF f ok fits paid] GetCode_SetCode)
  qed
next
  assume "err (Create G evm caller code gas val s) \<noteq> None"
  then show "ret (Create G evm caller code gas val s) = []"
    by (rule Create_error_no_output)
qed

theorem successful_create_returns_installed_code_witness:
  "\<not> isl (CreateFrame testParams (testEVM 3000000 0 False (returningRun [96, 0]))
            alice [] 50000 10 testState)
   \<and> int (length [96, 0 :: 8 word]) \<le> MaxCodeSize testParams
   \<and> int (length [96, 0 :: 8 word]) * CreateDataGas testParams \<le> 50000 - 3
   \<and> err (Create testParams (testEVM 3000000 0 False (returningRun [96, 0]))
            alice [] 50000 10 testState) = None
   \<and> ret (Create testParams (testEVM 3000000 0 False (returningRun [96, 0]))
            alice [] 50000 10 testState) = [96, 0]
   \<and> GetCode (state (Create testParams (testEVM 3000000 0 False (returningRun [96, 0]))
            alice [] 50000 10 testState)) 18 = [96, 0]
   \<and> err (Create testParams (testEVM 3000000 0 False faultingRun)
            alice [] 50000 10 testState) \<noteq> None
   \<and> ret (Create testParams (testEVM 3000000 0 False faultingRun)
            alice [] 50000 10 testState) = []"
  using successful_create_returns_installed_code
          [where G = testParams and evm = "testEVM 3000000 0 False (returningRun [96, 0])"
             and caller = alice and code = "[]" and gas = 50000 and val = 10 and s = testState]
        successful_create_returns_installed_code
          [where G = testParams and evm = "testEVM 3000000 0 False faultingRun"
             and caller = alice and code = "[]" and gas = 50000 and val = 10 and s = testState]
  by (simp add: Create_def CreateFrame_def state_defs frame_defs config_defs test_defs)

theorem create_output_not_cleared_counterexample:
  "err (Create testParams (testEVM 3000000 0 False (returningRun [96, 0]))
          alice [] 50000 10 testState) = None
   \<and> contractAddr (Create testParams (testEVM 3000000 0 False (returningRun [96, 0]))
          alice [] 50000 10 testState) = 18
   \<and> GetCode (state (Create testParams (testEVM 3000000 0 False (returningRun [96, 0]))
          alice [] 50000 10 testState)) 18 = [96, 0]
   \<and> ret (Create testParams (testEVM 3000000 0 False (returningRun [96, 0]))
          alice [] 50000 10 testState) = [96, 0]
   \<and> ret (Create testParams (testEVM 3000000 0 False (returningRun [96, 0]))
          alice [] 50000 10 testState) \<noteq> []"
  by (simp add: Create_def CreateFrame_def state_defs frame_defs config_defs test_defs)

subsection \<open>Properties of DelegateCall\<close>

lemma DelegateCallFrame_cases:
  "DelegateCallFrame G evm caller addr gas s =
     (if NoRecursion (vmConfig evm) \<and> 0 < depth evm then
        Inl \<lparr>ret = [], err = None, caller_after = ReturnGas gas caller,
             frame = None, state = s\<rparr>
      else if CallCreateDepth G < depth evm then
        Inl \<lparr>ret = [], err = Some ErrDepth, caller_after = ReturnGas gas caller,
             frame = None, state = s\<rparr>
      else
        Inr (fst (Snapshot s),
             \<lparr>CallerAddress = OwnCaller caller, self = Address caller, Code = GetCode s addr,
              CodeHash = GetCodeHash G s addr, CodeAddr = Some addr, Val = Value caller,
              Gas = gas, delegate = True\<rparr>,
             snd (Snapshot s)))"
  by (simp add: DelegateCallFrame_def Let_def Snapshot_def GetAccount_def NewContract_def
        AsDelegate_def SetCallCode_def GetCode_def GetCodeHash_def)

lemma DelegateCall_ignores_transfer_callbacks:
  "DelegateCall G (evm\<lparr>Ctx := (Ctx evm)\<lparr>CanTransfer := p, Transfer := t\<rparr>\<rparr>) caller addr input gas s
     = DelegateCall G evm caller addr input gas s"
  by (simp add: DelegateCall_def DelegateCallFrame_def Let_def Snapshot_def)

text \<open>
  Claim C10. \<open>DelegateCall\<close> consults neither the transfer-permission predicate nor the
  transfer function: replacing both callbacks of the context changes nothing. For every
  input its result is the no-recursion no-op, the \<open>ErrDepth\<close> failure, or what the
  interpreter returns: so its error is \<^verbatim>\<open>nil\<close>, \<open>ErrDepth\<close> or the interpreter's own, and it
  raises no \<open>ErrInsufficientBalance\<close> itself. The interpreter is started on the state view
  as it was given (only the snapshot is added, no balance has moved), with a frame that
  executes in the caller's own account, carries the caller's value, is marked as delegate
  and has the identity of the caller's caller.
\<close>

theorem delegate_call_moves_no_value:
  "let c = \<lparr>CallerAddress = OwnCaller caller, self = Address caller, Code = GetCode s addr,
            CodeHash = GetCodeHash G s addr, CodeAddr = Some addr, Val = Value caller,
            Gas = gas, delegate = True\<rparr>;
       r = interpreter evm c input (snd (Snapshot s));
       out = DelegateCall G evm caller addr input gas s
   in (out = \<lparr>ret = [], err = None, caller_after = ReturnGas gas caller,
              frame = None, state = s\<rparr>
       \<or> out = \<lparr>ret = [], err = Some ErrDepth, caller_after = ReturnGas gas caller,
                 frame = None, state = s\<rparr>
       \<or> (DelegateCallFrame G evm caller addr gas s = Inr (fst (Snapshot s), c, snd (Snapshot s))
           \<and> ret out = r_ret r \<and> err out = r_err r
           \<and> (frame out = Some (c\<lparr>Gas := r_gas r\<rparr>) \<or> frame out = Some (c\<lparr>Gas := 0\<rparr>))))
      \<and> (err out = None \<or> err out = Some ErrDepth \<or> err out = r_err r)
      \<and> accounts (snd (Snapshot s)) = accounts s
      \<and> DelegateCall G (evm\<lparr>Ctx := (Ctx evm)\<lparr>CanTransfer := p, Transfer := t\<rparr>\<rparr>)
           caller addr input gas s = out"
proof -
  let ?c = "\<lparr>CallerAddress = OwnCaller caller, self = Address caller, Code = GetCode s addr,
            CodeHash = GetCodeHash G s addr, CodeAddr = Some addr, Val = Value caller,
            Gas = gas, delegate = True\<rparr>"
  let ?r = "interpreter evm ?c input (snd (Snapshot s))"
  let ?out = "DelegateCall G evm caller addr input gas s"
  have outcomes:
    "?out = \<lparr>ret = [], err = None, caller_after = ReturnGas gas caller,
             frame = None, state = s\<rparr>
     \<or> ?out = \<lparr>ret = [], err = Some ErrDepth, caller_after = ReturnGas gas caller,
                frame = None, state = s\<rparr>
     \<or> (DelegateCallFrame G evm caller addr gas s = Inr (fst (Snapshot s), ?c, snd (Snapshot s))
         \<and> ret ?out = r_ret ?r \<and> err ?out = r_err ?r
         \<and> (frame ?out = Some (?c\<lparr>Gas := r_gas ?r\<rparr>) \<or> frame ?out = Some (?c\<lparr>Gas := 0\<rparr>)))"
  proof (cases "NoRecursion (vmConfig evm) \<and> 0 < depth evm")
    case True
    then show ?thesis
      by (simp add: DelegateCall_def DelegateCallFrame_cases)
  next
    case norec: False
    show ?thesis
    proof (cases "CallCreateDepth G < depth evm")
      case True
      with norec show ?thesis
        by (simp add: DelegateCall_def DelegateCallFrame_cases)
    next
      case False
      with norec have f: "DelegateCallFrame G evm caller addr gas s
          = Inr (fst (Snapshot s), ?c, snd (Snapshot s))"
        by (simp add: DelegateCallFrame_cases)
      show ?thesis
      proof (cases "r_err ?r = None")
        case True
        show ?thesis
          by (simp add: f DelegateCall_success [OF f True] True)
      next
        case False
        show ?thesis
          by (simp add: f DelegateCall_fault [OF f False])
      qed
    qed
  qed
  from outcomes have errs: "err ?out = None \<or> err ?out = Some ErrDepth \<or> err ?out = r_err ?r"
    by auto
  show ?thesis
    unfolding Let_def
    by (intro conjI outcomes errs Snapshot_accounts DelegateCall_ignores_transfer_callbacks)
qed

theorem delegate_call_moves_no_value_witness:
  "DelegateCall testParams (testEVM 3000000 1 True (returningRun [7])) alice 12 [] 50000 testState =
     \<lparr>ret = [], err = None, caller_after = alice\<lparr>HeldGas := 50000\<rparr>, frame = None,
      state = testState\<rparr>
   \<and> DelegateCall testParams (testEVM 3000000 1025 False (returningRun [7])) alice 12 [] 50000
       testState =
     \<lparr>ret = [], err = Some ErrDepth, caller_after = alice\<lparr>HeldGas := 50000\<rparr>, frame = None,
      state = testState\<rparr>
   \<and> DelegateCall testParams (testEVM 3000000 0 False (returningRun [7])) alice 12 [] 50000
       testState =
     \<lparr>ret = [7], err = None, caller_after = alice\<lparr>HeldGas := 49997\<rparr>,
      frame = Some \<lparr>CallerAddress = 11, self = 10, Code = [], CodeHash = 0,
                    CodeAddr = Some 12, Val = 0, Gas = 49997, delegate = True\<rparr>,
      state = testState\<lparr>revisions := [accounts testState]\<rparr>\<rparr>
   \<and> DelegateCall testParams
        (testEVM 3000000 0 False (returningRun [7])
           \<lparr>Ctx := (Ctx (testEVM 3000000 0 False (returningRun [7])))
              \<lparr>CanTransfer := (\<lambda>db a v. False), Transfer := (\<lambda>db a b v. db)\<rparr>\<rparr>)
        alice 12 [] 50000 testState =
      DelegateCall testParams (testEVM 3000000 0 False (returningRun [7])) alice 12 [] 50000
        testState"
  using delegate_call_moves_no_value
          [where caller = alice and s = testState and addr = 12 and G = testParams
             and gas = 50000 and evm = "testEVM 3000000 1 True (returningRun [7])"
             and input = "[]" and p = "\<lambda>db a v. False" and t = "\<lambda>db a b v. db"]
        delegate_call_moves_no_value
          [where caller = alice and s = testState and addr = 12 and G = testParams
             and gas = 50000 and evm = "testEVM 3000000 1025 False (returningRun [7])"
             and input = "[]" and p = "\<lambda>db a v. False" and t = "\<lambda>db a b v. db"]
        delegate_call_moves_no_value
          [where caller = alice and s = testState and addr = 12 and G = testParams
             and gas = 50000 and evm = "testEVM 3000000 0 False (returningRun [7])"
             and input = "[]" and p = "\<lambda>db a v. False" and t = "\<lambda>db a b v. db"]
  by (simp add: DelegateCall_def DelegateCallFrame_def state_defs frame_defs config_defs
        test_defs)


end
